theory Spec2Isabelle
  imports Complex_Main
begin

section \<open>Strings, exceptions and the outside world\<close>

text \<open>
  JavaScript strings are modelled as HOL strings: a \<^typ>\<open>char\<close> stands for one code unit
  below 256 (the Latin-1 range), so \<open>length\<close> is the \<open>length\<close> of the string in
  the source. On that range \<open>String.prototype.trim\<close> strips the code units 9 to 13, 32
  and 160 from both ends, and \<open>toLowerCase\<close> moves A to Z and the capital letters 192 to
  222 (215, the multiplication sign, apart) up by 32.
\<close>

definition isWhiteSpace :: "char \<Rightarrow> bool" where
  "isWhiteSpace c = (let n = (of_char c :: nat) in (9 \<le> n \<and> n \<le> 13) \<or> n = 32 \<or> n = 160)"

definition trim :: "string \<Rightarrow> string" where
  "trim s = rev (dropWhile isWhiteSpace (rev (dropWhile isWhiteSpace s)))"

definition lowerChar :: "char \<Rightarrow> char" where
  "lowerChar c =
     (let n = (of_char c :: nat)
      in if (65 \<le> n \<and> n \<le> 90) \<or> (192 \<le> n \<and> n \<le> 222 \<and> n \<noteq> 215)
         then char_of (n + 32) else c)"

definition toLowerCase :: "string \<Rightarrow> string" where
  "toLowerCase s = map lowerChar s"

fun startsWith :: "string \<Rightarrow> string \<Rightarrow> bool" where
  "startsWith s [] = True"
| "startsWith [] (p # ps) = False"
| "startsWith (c # cs) (p # ps) = (c = p \<and> startsWith cs ps)"

text \<open>The apostrophe, for the string literals of the source that contain one.\<close>

definition apostrophe :: string where
  "apostrophe = [CHR 0x27]"

text \<open>
  An optional string of the source (\<open>string | null | undefined\<close>) is a
  \<^typ>\<open>string option\<close>; it is truthy when it is present and not empty.
\<close>

fun truthy :: "string option \<Rightarrow> bool" where
  "truthy None = False"
| "truthy (Some s) = (s \<noteq> [])"

text \<open>\<open>a || b\<close> on optional strings: the first operand when truthy, the second otherwise.\<close>

definition or_else :: "string option \<Rightarrow> string option \<Rightarrow> string option" where
  "or_else a b = (if truthy a then a else b)"

text \<open>
  What the source can throw: an \<open>Error\<close> it raises itself, the \<open>TypeError\<close> of a
  failed \<open>fetch\<close>, the \<open>SyntaxError\<close> of a body that is not JSON. \<open>String(error)\<close>,
  as the \<open>catch\<close> blocks apply it, is the name, a colon and the message, and the name
  alone when the message is empty.
\<close>

datatype exn = Error string | TypeError string | SyntaxError string

definition named :: "string \<Rightarrow> string \<Rightarrow> string" where
  "named name m = (if m = [] then name else name @ '': '' @ m)"

fun String :: "exn \<Rightarrow> string" where
  "String (Error m) = named ''Error'' m"
| "String (TypeError m) = named ''TypeError'' m"
| "String (SyntaxError m) = named ''SyntaxError'' m"

text \<open>
  An upstream response: its HTTP status, its body as \<open>res.text()\<close> gives it, and its body
  as \<open>res.json()\<close> gives it: the parsed value (of type \<open>'j\<close>: any JSON value for the
  text route, the record the video route reads for the video route), or the exception of a
  body that does not parse. \<open>res.ok\<close> is a status from 200 to 299.
\<close>

record 'j response =
  status :: nat
  text_body :: string
  json_body :: "exn + 'j"

definition ok :: "'j response \<Rightarrow> bool" where
  "ok res = (200 \<le> status res \<and> status res \<le> 299)"

text \<open>
  The outside world of one server process: the wall clock that \<open>Date.now()\<close> reads (in
  milliseconds), the requests \<open>fetch\<close> has sent so far (oldest first) and the lines written
  to the console. The upstream service is a function of the requests it has seen and of the
  request that arrives: it answers after some milliseconds, with a response or with a
  rejection of the promise.
\<close>

record 'q world =
  now :: int
  sent :: "'q list"
  console :: "string list"

datatype 'j fetch_outcome = Rejects nat exn | Responds nat "'j response"

type_synonym ('q, 'j) upstream = "'q list \<Rightarrow> 'q \<Rightarrow> 'j fetch_outcome"

definition fetch :: "('q, 'j) upstream \<Rightarrow> 'q \<Rightarrow> 'q world \<Rightarrow> (exn + 'j response) \<times> 'q world" where
  "fetch up q w =
     (case up (sent w) q of
        Rejects ms e \<Rightarrow> (Inl e, w\<lparr>now := now w + int ms, sent := sent w @ [q]\<rparr>)
      | Responds ms res \<Rightarrow> (Inr res, w\<lparr>now := now w + int ms, sent := sent w @ [q]\<rparr>))"

text \<open>\<open>console.log\<close>, \<open>console.warn\<close> and \<open>console.error\<close>: one line, the arguments
  separated by a blank.\<close>

definition console_write :: "string \<Rightarrow> 'q world \<Rightarrow> 'q world" where
  "console_write line w = w\<lparr>console := console w @ [line]\<rparr>"

text \<open>\<open>NextResponse.json(body, { status })\<close>; the status is 200 when none is given.\<close>

record 'b http_response =
  http_status :: nat
  payload :: 'b

definition NextResponse_json :: "'b \<Rightarrow> nat \<Rightarrow> 'b http_response" where
  "NextResponse_json b s = \<lparr>http_status = s, payload = b\<rparr>"

text \<open>
  A JSON value, as \<open>res.json()\<close> gives it: the \<open>as\<close> of the source checks nothing,
  so a body can be any value. A number stands for its value, a rational. An object is the list
  of its members in the order of the text; of two members with one key the last counts, as
  \<open>JSON.parse\<close> has it. A value of the source that may be \<open>undefined\<close> is an
  optional JSON value, \<open>None\<close> for \<open>undefined\<close>.
\<close>

datatype json =
  JNull
| JBool bool
| JNumber rat
| JString string
| JArray "json list"
| JObject "(string \<times> json) list"

text \<open>\<open>xs[0]\<close> on an array: the first element, \<open>undefined\<close> on an empty array.\<close>

fun first :: "'a list \<Rightarrow> 'a option" where
  "first [] = None"
| "first (x # xs) = Some x"

text \<open>
  \<open>v.name\<close> on a value that is neither \<open>null\<close> nor \<open>undefined\<close>, for a name
  that no prototype defines (the routes read \<open>candidates\<close>, \<open>content\<close>, \<open>parts\<close>
  and \<open>text\<close>): the member of an object, \<open>undefined\<close> on every other value.
\<close>

fun get_member :: "string \<Rightarrow> json \<Rightarrow> json option" where
  "get_member name (JObject kvs) = map_of (rev kvs) name"
| "get_member name v = None"

text \<open>
  \<open>v[0]\<close> on such a value: the first element of an array, the first character of a
  string, the member \<open>0\<close> of an object, \<open>undefined\<close> on every other value.
\<close>

fun get_index0 :: "json \<Rightarrow> json option" where
  "get_index0 (JArray xs) = first xs"
| "get_index0 (JString cs) = (case cs of [] \<Rightarrow> None | c # cs' \<Rightarrow> Some (JString [c]))"
| "get_index0 (JObject kvs) = map_of (rev kvs) ''0''"
| "get_index0 v = None"

text \<open>Optional chaining, \<open>v?.name\<close> and \<open>v?.[0]\<close>: \<open>undefined\<close> when \<open>v\<close> is
  \<open>null\<close> or \<open>undefined\<close>, the access otherwise.\<close>

fun optional :: "(json \<Rightarrow> json option) \<Rightarrow> json option \<Rightarrow> json option" where
  "optional f None = None"
| "optional f (Some JNull) = None"
| "optional f (Some v) = f v"

text \<open>\<open>v ?? d\<close>: \<open>d\<close> when \<open>v\<close> is \<open>null\<close> or \<open>undefined\<close>, \<open>v\<close> otherwise.\<close>

fun coalesce :: "json option \<Rightarrow> json \<Rightarrow> json" where
  "coalesce None d = d"
| "coalesce (Some JNull) d = d"
| "coalesce (Some v) d = v"

section \<open>The text generation route (\<open>app/api/gemini/route.ts\<close>)\<close>

text \<open>\<open>GenerateBody\<close>; \<open>request.json()\<close> gives one, or \<open>null\<close>, or throws.\<close>

record GenerateBody =
  gen_text :: "string option"

text \<open>The entries of \<open>responseCache\<close>, a \<open>Map\<close> from the cache key to the entry.\<close>

record cache_entry =
  response :: json
  timestamp :: int

type_synonym cache = "string \<rightharpoonup> cache_entry"

definition CACHE_DURATION :: int where
  "CACHE_DURATION = 5 * 60 * 1000"

definition buildTutorPrompt :: "string \<Rightarrow> string" where
  "buildTutorPrompt userInput =
     ''You are a helpful AI assistant. Respond in a friendly, clear, and concise way. Keep responses natural and conversational. Do not include any promotional text, download instructions, or phone-related content. Just answer the user''
     @ apostrophe @ ''s question directly. User said: '' @ apostrophe @ userInput @ apostrophe"

text \<open>
  The request the route sends: the endpoint with the model and the key in it, and the JSON
  body, one user turn with the prompt and the fixed \<open>generationConfig\<close> (the two
  fractions as hundredths: 70 is 0.7, 95 is 0.95).
\<close>

record generationConfig =
  temperature_hundredths :: nat
  topK :: nat
  topP_hundredths :: nat
  maxOutputTokens :: nat

record gemini_request =
  g_endpoint :: string
  g_method :: string
  g_headers :: "(string \<times> string) list"
  g_role :: string
  g_prompt :: string
  g_config :: generationConfig

text \<open>
  \<open>data?.candidates?.[0]?.content?.parts?.[0]?.text ?? ""\<close>, on the body as it was
  parsed. The type the source casts the body to says that the value is a string; nothing
  tests that it is.
\<close>

definition candidateText :: "json \<Rightarrow> json" where
  "candidateText data =
     coalesce
       (optional (get_member ''text'')
          (optional get_index0
             (optional (get_member ''parts'')
                (optional (get_member ''content'')
                   (optional get_index0
                      (optional (get_member ''candidates'') (Some data)))))))
       (JString [])"

text \<open>The bodies the route answers with: \<open>{ reply }\<close>, the reply being the value
  extracted or cached, or \<open>{ error, detail, status }\<close>, the last two optional.\<close>

datatype gemini_body =
  Reply (reply: json)
| Failure (failure_error: string) (failure_detail: "string option") (failure_status: "nat option")

type_synonym gemini_upstream = "(gemini_request, json) upstream"

text \<open>The decimal digits of a number, as \<open>console.error\<close> prints a status.\<close>

fun decimal :: "nat \<Rightarrow> string" where
  "decimal n = (if n < 10 then [char_of (48 + n)] else decimal (n div 10) @ [char_of (48 + n mod 10)])"

declare decimal.simps [simp del]

text \<open>The \<open>catch\<close> block of the route.\<close>

definition gemini_catch :: "exn \<Rightarrow> gemini_body http_response" where
  "gemini_catch e = NextResponse_json (Failure ''Request failed'' (Some (String e)) None) 500"

definition gemini_missing_key :: "gemini_body http_response" where
  "gemini_missing_key =
     NextResponse_json (Failure ''Missing GOOGLE_GENERATIVE_API_KEY'' None None) 500"

definition gemini_missing_text :: "gemini_body http_response" where
  "gemini_missing_text =
     NextResponse_json (Failure (''Missing '' @ apostrophe @ ''text'' @ apostrophe) None None) 400"

definition gemini_fetch_request :: "string \<Rightarrow> string \<Rightarrow> gemini_request" where
  "gemini_fetch_request apiKey promptPayload =
     \<lparr>g_endpoint = ''https://generativelanguage.googleapis.com/v1beta/models/''
         @ ''gemini-2.0-flash-001'' @ '':generateContent?key='' @ apiKey,
      g_method = ''POST'',
      g_headers = [(''Content-Type'', ''application/json'')],
      g_role = ''user'',
      g_prompt = promptPayload,
      g_config = \<lparr>temperature_hundredths = 70, topK = 40, topP_hundredths = 95,
                  maxOutputTokens = 1024\<rparr>\<rparr>"

text \<open>
  Lines 38 to 96 of the route, what \<open>POST\<close> does when the cache does not answer: the
  request to the model, the 502 of a response that is not \<open>ok\<close>, and on success the
  reply, stored under the key with the time \<open>Date.now()\<close> reads then.
\<close>

definition gemini_generate ::
  "gemini_upstream \<Rightarrow> string \<Rightarrow> string \<Rightarrow> string \<Rightarrow> cache \<Rightarrow> gemini_request world
     \<Rightarrow> gemini_body http_response \<times> cache \<times> gemini_request world" where
  "gemini_generate up apiKey userText cacheKey responseCache w =
     (case fetch up (gemini_fetch_request apiKey (buildTutorPrompt userText)) w of
        (Inl e, w1) \<Rightarrow> (gemini_catch e, responseCache, w1)
      | (Inr upstream, w1) \<Rightarrow>
          if \<not> ok upstream then
            (NextResponse_json
               (Failure ''Gemini API error'' (Some (text_body upstream)) (Some (status upstream)))
               502,
             responseCache,
             console_write
               (''Gemini API error: '' @ decimal (status upstream) @ '' '' @ text_body upstream) w1)
          else
            (case json_body upstream of
               Inl e \<Rightarrow> (gemini_catch e, responseCache, w1)
             | Inr data \<Rightarrow>
                 let candidate_text = candidateText data
                 in (NextResponse_json (Reply candidate_text) 200,
                     responseCache(cacheKey \<mapsto>
                       \<lparr>response = candidate_text, timestamp = now w1\<rparr>),
                     w1)))"

text \<open>
  \<open>POST\<close> of the route. Its arguments are the environment variable
  \<open>GOOGLE_GENERATIVE_API_KEY\<close>, the upstream service, what \<open>request.json()\<close> gives (a
  body, \<open>null\<close>, or the exception of a request that is not JSON), the cache and the
  world; it returns the response with the cache and the world it leaves. \<open>Date.now()\<close>
  is read for the cache check only when the key has an entry.
\<close>

definition POST_gemini ::
  "string option \<Rightarrow> gemini_upstream \<Rightarrow> exn + GenerateBody option \<Rightarrow> cache \<Rightarrow> gemini_request world
     \<Rightarrow> gemini_body http_response \<times> cache \<times> gemini_request world" where
  "POST_gemini apiKey up body responseCache w =
     (case apiKey of
        None \<Rightarrow> (gemini_missing_key, responseCache, w)
      | Some key \<Rightarrow>
          if key = [] then (gemini_missing_key, responseCache, w)
          else
            (case body of
               Inl e \<Rightarrow> (gemini_catch e, responseCache, w)
             | Inr b \<Rightarrow>
                 (case map_option trim (Option.bind b gen_text) of
                    None \<Rightarrow> (gemini_missing_text, responseCache, w)
                  | Some userText \<Rightarrow>
                      if userText = [] then (gemini_missing_text, responseCache, w)
                      else
                        let cacheKey = toLowerCase userText
                        in (case responseCache cacheKey of
                              None \<Rightarrow> gemini_generate up key userText cacheKey responseCache w
                            | Some cached \<Rightarrow>
                                if now w - timestamp cached < CACHE_DURATION
                                then (NextResponse_json (Reply (response cached)) 200,
                                      responseCache, w)
                                else gemini_generate up key userText cacheKey responseCache w))))"

section \<open>The avatar video route (\<open>app/api/did/talk/route.ts\<close>)\<close>

record DidRequestBody =
  did_text :: "string option"
  source_url :: "string option"
  voice_id :: "string option"

definition DEFAULT_SOURCE_URL :: string where
  "DEFAULT_SOURCE_URL = ''https://create-images-results.d-id.com/DefaultImages/actor.jpg''"

definition DEFAULT_VOICE_ID :: string where
  "DEFAULT_VOICE_ID = ''en-US-JennyNeural''"

type_synonym AuthHeaders = "(string \<times> string) list"

text \<open>The credentials \<open>createTalk\<close> and \<open>fetchTalkStatus\<close> are given.\<close>

record auth =
  studioApiKey :: "string option"
  basicAuth :: "string option"

text \<open>\<open>x && x.trim()\<close> as a test, with the trimmed string it leaves when it holds.\<close>

definition nonblank :: "string option \<Rightarrow> string option" where
  "nonblank x = (case x of None \<Rightarrow> None | Some s \<Rightarrow> if s \<noteq> [] \<and> trim s \<noteq> [] then Some (trim s) else None)"

text \<open>The headers object, its keys in the order they are set.\<close>

definition buildAuthHeaders :: "auth \<Rightarrow> AuthHeaders" where
  "buildAuthHeaders opts =
     (let headers = [(''Content-Type'', ''application/json'')]
      in case nonblank (basicAuth opts) of
           Some v \<Rightarrow>
             headers @ [(''Authorization'', if startsWith v ''Basic '' then v else ''Basic '' @ v)]
         | None \<Rightarrow>
            (case nonblank (studioApiKey opts) of
               Some k \<Rightarrow> headers @ [(''x-api-key'', k)]
             | None \<Rightarrow> headers))"

text \<open>The JSON bodies \<open>createTalk\<close> posts: the script, with its voice provider in the
  secondary payload only, and the source image.\<close>

record provider =
  provider_type :: string
  provider_voice_id :: string

record script =
  script_type :: string
  script_input :: string
  script_provider :: "provider option"

record talk_body =
  body_script :: script
  body_source_url :: string

record did_request =
  url :: string
  http_method :: string
  headers :: AuthHeaders
  body :: "talk_body option"

text \<open>
  What the service answers, as the source casts it: \<open>createTalk\<close> reads the \<open>id\<close> only,
  \<open>fetchTalkStatus\<close> the \<open>status\<close>, the \<open>result_url\<close> and the \<open>error\<close>.
\<close>

record talk =
  talk_id :: string
  talk_status :: string
  result_url :: "string option"
  error :: "string option"

type_synonym did_upstream = "(did_request, talk) upstream"

definition primaryBody :: "string \<Rightarrow> string \<Rightarrow> talk_body" where
  "primaryBody text sourceUrl =
     \<lparr>body_script = \<lparr>script_type = ''text'', script_input = text, script_provider = None\<rparr>,
      body_source_url = sourceUrl\<rparr>"

definition secondaryBody :: "string \<Rightarrow> string \<Rightarrow> string \<Rightarrow> talk_body" where
  "secondaryBody text sourceUrl voiceId =
     \<lparr>body_script = \<lparr>script_type = ''text'', script_input = text,
        script_provider = Some \<lparr>provider_type = ''microsoft'', provider_voice_id = voiceId\<rparr>\<rparr>,
      body_source_url = sourceUrl\<rparr>"

definition makeReqV1 :: "AuthHeaders \<Rightarrow> talk_body \<Rightarrow> did_request" where
  "makeReqV1 baseHeaders b =
     \<lparr>url = ''https://api.d-id.com/v1/talks'', http_method = ''POST'', headers = baseHeaders,
      body = Some b\<rparr>"

definition makeReqLegacy :: "AuthHeaders \<Rightarrow> talk_body \<Rightarrow> did_request" where
  "makeReqLegacy baseHeaders b =
     \<lparr>url = ''https://api.d-id.com/talks'', http_method = ''POST'', headers = baseHeaders,
      body = Some b\<rparr>"

text \<open>Lines 99 to 104 of \<open>createTalk\<close>: the last check of the response, and its JSON.\<close>

definition createTalk_return :: "talk response \<Rightarrow> did_request world \<Rightarrow> (exn + talk) \<times> did_request world" where
  "createTalk_return res w =
     (if \<not> ok res then (Inl (Error (''D-ID create error: '' @ text_body res)), w)
      else (json_body res, w))"

definition createTalk ::
  "did_upstream \<Rightarrow> auth \<Rightarrow> string \<Rightarrow> string \<Rightarrow> string \<Rightarrow> did_request world
     \<Rightarrow> (exn + talk) \<times> did_request world" where
  "createTalk up a text sourceUrl voiceId w =
     (let baseHeaders = buildAuthHeaders a
      in case fetch up (makeReqV1 baseHeaders (primaryBody text sourceUrl)) w of
           (Inl e, w1) \<Rightarrow> (Inl e, w1)
         | (Inr res1, w1) \<Rightarrow>
             if ok res1 then createTalk_return res1 w1
             else
               (case fetch up (makeReqV1 baseHeaders (secondaryBody text sourceUrl voiceId))
                       (console_write (''D-ID v1 primary payload failed: '' @ text_body res1) w1) of
                  (Inl e, w2) \<Rightarrow> (Inl e, w2)
                | (Inr res2, w2) \<Rightarrow>
                    if ok res2 then createTalk_return res2 w2
                    else
                      (case fetch up (makeReqLegacy baseHeaders (primaryBody text sourceUrl))
                              (console_write
                                 (''D-ID v1 secondary payload failed: '' @ text_body res2) w2) of
                         (Inl e, w3) \<Rightarrow> (Inl e, w3)
                       | (Inr res3, w3) \<Rightarrow>
                           if ok res3 then createTalk_return res3 w3
                           else
                             (case fetch up
                                     (makeReqLegacy baseHeaders
                                        (secondaryBody text sourceUrl voiceId))
                                     (console_write
                                        (''D-ID legacy primary failed: '' @ text_body res3) w3) of
                                (Inl e, w4) \<Rightarrow> (Inl e, w4)
                              | (Inr res4, w4) \<Rightarrow>
                                  if \<not> ok res4
                                  then (Inl (Error (''D-ID create error: '' @ text_body res4)), w4)
                                  else createTalk_return res4 w4))))"

definition statusReq :: "string \<Rightarrow> auth \<Rightarrow> string \<Rightarrow> did_request" where
  "statusReq base a talkId =
     \<lparr>url = base @ talkId, http_method = ''GET'', headers = buildAuthHeaders a, body = None\<rparr>"

text \<open>Lines 118 to 127 of \<open>fetchTalkStatus\<close>.\<close>

definition fetchTalkStatus_return :: "talk response \<Rightarrow> did_request world \<Rightarrow> (exn + talk) \<times> did_request world" where
  "fetchTalkStatus_return res w =
     (if \<not> ok res then (Inl (Error (''D-ID status error: '' @ text_body res)), w)
      else (json_body res, w))"

definition fetchTalkStatus ::
  "did_upstream \<Rightarrow> auth \<Rightarrow> string \<Rightarrow> did_request world \<Rightarrow> (exn + talk) \<times> did_request world" where
  "fetchTalkStatus up a talkId w =
     (case fetch up (statusReq ''https://api.d-id.com/v1/talks/'' a talkId) w of
        (Inl e, w1) \<Rightarrow> (Inl e, w1)
      | (Inr res, w1) \<Rightarrow>
          if \<not> ok res then
            (case fetch up (statusReq ''https://api.d-id.com/talks/'' a talkId)
                    (console_write (''D-ID v1 status failed: '' @ text_body res) w1) of
               (Inl e, w2) \<Rightarrow> (Inl e, w2)
             | (Inr res2, w2) \<Rightarrow> fetchTalkStatus_return res2 w2)
          else fetchTalkStatus_return res w1)"

text \<open>The bodies the route answers with: \<open>{ id, videoUrl }\<close> or
  \<open>{ error, detail, id, status }\<close>, the last three optional.\<close>

datatype did_body =
  Video (video_id: string) (videoUrl: string)
| DidFailure (did_error: string) (did_detail: "string option") (did_id: "string option")
    (did_status: "string option")

definition timeoutMs :: int where
  "timeoutMs = 30000"

definition intervalMs :: nat where
  "intervalMs = 1200"

text \<open>\<open>await new Promise((r) => setTimeout(r, ms))\<close>: the clock is \<open>ms\<close> later.\<close>

definition sleep :: "nat \<Rightarrow> 'q world \<Rightarrow> 'q world" where
  "sleep ms w = w\<lparr>now := now w + int ms\<rparr>"

text \<open>How the \<open>while\<close> loop of \<open>POST\<close> is left: by the \<open>return\<close> in its body, or at its
  end (the \<open>break\<close>, or the condition that fails) with \<open>resultUrl\<close> and \<open>lastStatus\<close>.\<close>

datatype loop_exit =
  Returned "did_body http_response"
| Left "string option" string

lemma fetch_now: "fetch up q w = (r, w') \<Longrightarrow> now w \<le> now w'"
  by (auto simp: fetch_def split: fetch_outcome.splits)

lemma fetchTalkStatus_now: "fetchTalkStatus up a talkId w = (r, w') \<Longrightarrow> now w \<le> now w'"
  by (fastforce simp: fetchTalkStatus_def fetchTalkStatus_return_def console_write_def
      split: prod.splits sum.splits if_splits dest: fetch_now)

text \<open>
  The \<open>while\<close> loop of \<open>POST\<close>, from its condition; \<open>lastStatus\<close> is the loop's variable,
  \<open>resultUrl\<close> is set only where the loop is left.
\<close>

function poll ::
  "did_upstream \<Rightarrow> auth \<Rightarrow> string \<Rightarrow> int \<Rightarrow> string \<Rightarrow> did_request world
     \<Rightarrow> (exn + loop_exit) \<times> did_request world" where
  "poll up a talkId startedAt lastStatus w =
     (if now w - startedAt < timeoutMs then
        (case fetchTalkStatus up a talkId w of
           (Inl e, w1) \<Rightarrow> (Inl e, w1)
         | (Inr s, w1) \<Rightarrow>
             if talk_status s = ''done'' \<and> truthy (result_url s)
             then (Inr (Left (result_url s) (talk_status s)), w1)
             else if talk_status s = ''error''
             then (Inr (Returned
                     (NextResponse_json
                        (DidFailure ''D-ID processing error'' (error s) (Some talkId) None) 502)),
                   w1)
             else poll up a talkId startedAt (talk_status s) (sleep intervalMs w1))
      else (Inr (Left None lastStatus), w))"
  by pat_completeness auto
termination
proof (relation "measure (\<lambda>(up, a, talkId, startedAt, lastStatus, w). nat (timeoutMs - (now w - startedAt)))")
  show "wf (measure (\<lambda>(up, a, talkId, startedAt, lastStatus, w). nat (timeoutMs - (now w - startedAt))))"
    by simp
next
  fix up :: did_upstream and a talkId startedAt and lastStatus :: string
    and w w1 :: "did_request world" and x1 and s :: talk
  assume "now w - startedAt < timeoutMs" and "(x1, w1) = fetchTalkStatus up a talkId w"
  then have "now w \<le> now w1" "now w - startedAt < timeoutMs"
    using fetchTalkStatus_now [of up a talkId w x1 w1] by simp_all
  then show "((up, a, talkId, startedAt, talk_status s, sleep intervalMs w1),
              (up, a, talkId, startedAt, lastStatus, w))
             \<in> measure (\<lambda>(up, a, talkId, startedAt, lastStatus, w). nat (timeoutMs - (now w - startedAt)))"
    by (simp add: sleep_def intervalMs_def)
qed

declare poll.simps [simp del]

text \<open>The environment variables the route reads.\<close>

record did_env =
  DID_API_KEY :: "string option"
  NEXT_PUBLIC_DID_API_KEY :: "string option"
  DID_BASIC_AUTH :: "string option"

text \<open>\<open>x || d\<close> with a string default.\<close>

definition or_default :: "string option \<Rightarrow> string \<Rightarrow> string" where
  "or_default x d = (case x of None \<Rightarrow> d | Some s \<Rightarrow> if s = [] then d else s)"

definition did_catch :: "exn \<Rightarrow> did_body http_response" where
  "did_catch e = NextResponse_json (DidFailure ''Request failed'' (Some (String e)) None None) 500"

definition did_missing_credentials :: "did_body http_response" where
  "did_missing_credentials =
     NextResponse_json
       (DidFailure ''Missing D-ID credentials'' (Some ''Set DID_API_KEY or DID_BASIC_AUTH'')
          None None) 500"

definition did_missing_text :: "did_body http_response" where
  "did_missing_text =
     NextResponse_json
       (DidFailure (''Missing '' @ apostrophe @ ''text'' @ apostrophe) None None None) 400"

text \<open>Lines 132 and 133 of \<open>POST\<close>: the two credentials, \<open>null\<close> where the variables
  are unset or empty.\<close>

definition did_auth :: "did_env \<Rightarrow> auth" where
  "did_auth env =
     \<lparr>studioApiKey = or_else (or_else (DID_API_KEY env) (NEXT_PUBLIC_DID_API_KEY env)) None,
      basicAuth = or_else (DID_BASIC_AUTH env) None\<rparr>"

text \<open>Lines 152 and 153: \<open>body?.source_url?.trim() || DEFAULT_SOURCE_URL\<close>, and the voice
  alike.\<close>

definition did_sourceUrl :: "DidRequestBody option \<Rightarrow> string" where
  "did_sourceUrl b = or_default (map_option trim (Option.bind b source_url)) DEFAULT_SOURCE_URL"

definition did_voiceId :: "DidRequestBody option \<Rightarrow> string" where
  "did_voiceId b = or_default (map_option trim (Option.bind b voice_id)) DEFAULT_VOICE_ID"

definition did_timeout :: "string \<Rightarrow> string \<Rightarrow> did_body http_response" where
  "did_timeout talkId lastStatus =
     NextResponse_json
       (DidFailure ''Timeout waiting for video'' None (Some talkId) (Some lastStatus)) 504"

text \<open>Lines 155 to 188 of \<open>POST\<close>: the submission, the poll loop and what follows it.\<close>

definition synthesize ::
  "did_upstream \<Rightarrow> auth \<Rightarrow> string \<Rightarrow> string \<Rightarrow> string \<Rightarrow> did_request world
     \<Rightarrow> did_body http_response \<times> did_request world" where
  "synthesize up a text sourceUrl voiceId w =
     (case createTalk up a text sourceUrl voiceId
             (console_write (''Creating D-ID talk with text: '' @ take 50 text @ ''...'') w) of
        (Inl e, w1) \<Rightarrow> (did_catch e, w1)
      | (Inr created, w1) \<Rightarrow>
          let w2 = console_write (''D-ID talk created with ID: '' @ talk_id created) w1;
              startedAt = now w2
          in (case poll up a (talk_id created) startedAt [] w2 of
                (Inl e, w3) \<Rightarrow> (did_catch e, w3)
              | (Inr (Returned r), w3) \<Rightarrow> (r, w3)
              | (Inr (Left resultUrl lastStatus), w3) \<Rightarrow>
                  (case resultUrl of
                     None \<Rightarrow> (did_timeout (talk_id created) lastStatus, w3)
                   | Some u \<Rightarrow>
                       if u = [] then (did_timeout (talk_id created) lastStatus, w3)
                       else (NextResponse_json (Video (talk_id created) u) 200, w3))))"

text \<open>
  \<open>POST\<close> of the route: the environment, the upstream service, what \<open>request.json()\<close>
  gives (a body, \<open>null\<close>, or the exception of a request that is not JSON) and the world;
  it returns the response and the world it leaves.
\<close>

definition POST_did ::
  "did_env \<Rightarrow> did_upstream \<Rightarrow> exn + DidRequestBody option \<Rightarrow> did_request world
     \<Rightarrow> did_body http_response \<times> did_request world" where
  "POST_did env up req w =
     (let a = did_auth env;
          w0 = console_write
                 (''DID auth present: ''
                  @ (if truthy (studioApiKey a) \<or> truthy (basicAuth a) then ''true'' else ''false''))
                 w
      in if \<not> truthy (studioApiKey a) \<and> \<not> truthy (basicAuth a) then
           (did_missing_credentials,
            console_write
              ''Missing DID credentials: set DID_API_KEY (Studio) or DID_BASIC_AUTH (Basic)'' w0)
         else
           (case req of
              Inl e \<Rightarrow> (did_catch e, w0)
            | Inr b \<Rightarrow>
                (case map_option trim (Option.bind b did_text) of
                   None \<Rightarrow> (did_missing_text, w0)
                 | Some text \<Rightarrow>
                     if text = [] then (did_missing_text, w0)
                     else synthesize up a text (did_sourceUrl b) (did_voiceId b) w0)))"

text \<open>
  The four submissions of \<open>createTalk\<close> in the order of the source: the endpoint
  \<open>/v1/talks\<close> with the primary and with the secondary payload, then the endpoint
  \<open>/talks\<close> with each.
\<close>

definition tiers :: "auth \<Rightarrow> string \<Rightarrow> string \<Rightarrow> string \<Rightarrow> did_request list" where
  "tiers a text sourceUrl voiceId =
     [makeReqV1 (buildAuthHeaders a) (primaryBody text sourceUrl),
      makeReqV1 (buildAuthHeaders a) (secondaryBody text sourceUrl voiceId),
      makeReqLegacy (buildAuthHeaders a) (primaryBody text sourceUrl),
      makeReqLegacy (buildAuthHeaders a) (secondaryBody text sourceUrl voiceId)]"

text \<open>
  The states the \<open>while\<close> loop, started in the world \<open>w0\<close>, reaches at its head:
  \<open>polling up a talkId startedAt w0 lastStatus w\<close> when it stands there with
  \<open>lastStatus\<close> in the world \<open>w\<close>. It comes back to its head after a poll that neither
  leaves the loop nor throws, and after the delay.
\<close>

inductive polling ::
  "did_upstream \<Rightarrow> auth \<Rightarrow> string \<Rightarrow> int \<Rightarrow> did_request world \<Rightarrow> string \<Rightarrow> did_request world \<Rightarrow> bool"
  for up a talkId startedAt w0 where
  start: "polling up a talkId startedAt w0 [] w0"
| again: "polling up a talkId startedAt w0 lastStatus w \<Longrightarrow>
          now w - startedAt < timeoutMs \<Longrightarrow>
          fetchTalkStatus up a talkId w = (Inr s, w1) \<Longrightarrow>
          \<not> (talk_status s = ''done'' \<and> truthy (result_url s)) \<Longrightarrow>
          talk_status s \<noteq> ''error'' \<Longrightarrow>
          polling up a talkId startedAt w0 (talk_status s) (sleep intervalMs w1)"

section \<open>Concrete runs\<close>

text \<open>A model that answers every request after 250 ms with one candidate, \<open>Hi there!\<close>.\<close>

definition hello_upstream :: gemini_upstream where
  "hello_upstream h q =
     Responds 250
       \<lparr>status = 200, text_body = ''(candidates)'',
        json_body = Inr (JObject [(''candidates'', JArray [JObject [(''content'',
          JObject [(''parts'', JArray [JObject [(''text'', JString ''Hi there!'')]])])]])])\<rparr>"

text \<open>A model that answers every request after 80 ms with a candidate whose content is
  the number 5, and one whose candidate has the number 42 where its text should be.\<close>

definition malformed_upstream :: gemini_upstream where
  "malformed_upstream h q =
     Responds 80 \<lparr>status = 200, text_body = ''(content 5)'',
       json_body = Inr (JObject [(''candidates'', JArray [JObject [(''content'',
         JNumber 5)]])])\<rparr>"

definition number_upstream :: gemini_upstream where
  "number_upstream h q =
     Responds 80 \<lparr>status = 200, text_body = ''(text 42)'',
       json_body = Inr (JObject [(''candidates'', JArray [JObject [(''content'',
         JObject [(''parts'', JArray [JObject [(''text'', JNumber 42)]])])]])])\<rparr>"

text \<open>An environment with no credential of the video service, one with the Studio key.\<close>

definition no_credentials :: did_env where
  "no_credentials =
     \<lparr>DID_API_KEY = None, NEXT_PUBLIC_DID_API_KEY = Some [], DID_BASIC_AUTH = None\<rparr>"

definition studio_env :: did_env where
  "studio_env =
     \<lparr>DID_API_KEY = Some ''studio-key'', NEXT_PUBLIC_DID_API_KEY = None, DID_BASIC_AUTH = None\<rparr>"

text \<open>A video service that refuses every request after 40 ms, with the status 403.\<close>

definition refusing_upstream :: did_upstream where
  "refusing_upstream h q =
     Responds 40 \<lparr>status = 403, text_body = ''forbidden'',
       json_body = Inl (SyntaxError ''Unexpected token'')\<rparr>"

text \<open>Both credentials at once, the Basic one with blanks around it.\<close>

definition both_auth :: auth where
  "both_auth = \<lparr>studioApiKey = Some ''studio-key'', basicAuth = Some '' dXNlcjpwYXNz ''\<rparr>"

text \<open>
  A video service that accepts a submission only at the legacy endpoint with a voice
  provider in the payload, and answers every status request with \<open>pending\<close>.
\<close>

definition legacy_voice_upstream :: did_upstream where
  "legacy_voice_upstream h q =
     (case body q of
        None \<Rightarrow>
          Responds 100 \<lparr>status = 200, text_body = ''(pending)'',
            json_body = Inr \<lparr>talk_id = ''job4'', talk_status = ''pending'', result_url = None,
                            error = None\<rparr>\<rparr>
      | Some b \<Rightarrow>
          if url q = ''https://api.d-id.com/talks'' \<and> script_provider (body_script b) \<noteq> None
          then Responds 120 \<lparr>status = 201, text_body = ''(created)'',
                 json_body = Inr \<lparr>talk_id = ''job4'', talk_status = ''created'', result_url = None,
                                 error = None\<rparr>\<rparr>
          else Responds 40 \<lparr>status = 400, text_body = ''unsupported'',
                 json_body = Inl (SyntaxError ''Unexpected token'')\<rparr>)"

text \<open>
  A video service that accepts every submission and answers the first status request
  with \<open>pending\<close>, every later one with \<open>error\<close>.
\<close>

definition failing_job_upstream :: did_upstream where
  "failing_job_upstream h q =
     (case body q of
        Some b \<Rightarrow>
          Responds 90 \<lparr>status = 201, text_body = ''(created)'',
            json_body = Inr \<lparr>talk_id = ''job1'', talk_status = ''created'', result_url = None,
                            error = None\<rparr>\<rparr>
      | None \<Rightarrow>
          if filter (\<lambda>r. body r = None) h = []
          then Responds 100 \<lparr>status = 200, text_body = ''(pending)'',
                 json_body = Inr \<lparr>talk_id = ''job1'', talk_status = ''pending'', result_url = None,
                                 error = None\<rparr>\<rparr>
          else Responds 100 \<lparr>status = 200, text_body = ''(error)'',
                 json_body = Inr \<lparr>talk_id = ''job1'', talk_status = ''error'', result_url = None,
                                 error = Some ''render failed''\<rparr>\<rparr>)"

section \<open>Properties of the text generation route\<close>

lemma toLowerCase_Nil_iff: "toLowerCase s = [] \<longleftrightarrow> s = []"
  by (simp add: toLowerCase_def)

lemma trim_Nil: "trim [] = []"
  by (simp add: trim_def)

lemma gemini_generate_sent:
  "gemini_generate up k u ck c w = (r, c', w') \<Longrightarrow>
     sent w' = sent w @ [gemini_fetch_request k (buildTutorPrompt u)]"
  by (auto simp: gemini_generate_def fetch_def console_write_def Let_def
      split: fetch_outcome.splits sum.splits if_splits)

lemma gemini_generate_200:
  "gemini_generate up k u ck c w = (r, c', w') \<Longrightarrow> http_status r = 200 \<Longrightarrow>
     (\<exists>e. c' = c(ck \<mapsto> e) \<and> timestamp e = now w' \<and> r = NextResponse_json (Reply (response e)) 200)"
  by (auto simp: gemini_generate_def fetch_def console_write_def Let_def NextResponse_json_def gemini_catch_def
      split: fetch_outcome.splits sum.splits if_splits)

lemma gemini_generate_success:
  assumes "up (sent w) (gemini_fetch_request k (buildTutorPrompt u)) = Responds ms res"
    and "ok res" and "json_body res = Inr data"
  shows "gemini_generate up k u ck c w =
     (NextResponse_json (Reply (candidateText data)) 200,
      c(ck \<mapsto> \<lparr>response = candidateText data, timestamp = now w + int ms\<rparr>),
      w\<lparr>now := now w + int ms, sent := sent w @ [gemini_fetch_request k (buildTutorPrompt u)]\<rparr>)"
  using assms by (simp add: gemini_generate_def fetch_def Let_def)

text \<open>
  C1. With the key configured (an entry is stored only by a call that had the key) and a
  text that is not blank: when the cache holds, under the trimmed and lower-cased text, an
  entry whose age \<open>Date.now() - timestamp\<close> is below
  \<open>CACHE_DURATION\<close> (5 minutes), \<open>POST\<close> answers with that entry's reply and leaves
  the cache and the world as they were, so no request is sent upstream. Hence of two calls
  with the same normalized text, the first of which went upstream and answered 200 and the
  second of which comes less than 5 minutes after the first returned, the second gives the
  same response, and the one request of the first call is the only one sent.
\<close>

theorem generate_cache_hit:
  assumes "k \<noteq> []"
    and "gen_text b = Some t" and "trim t \<noteq> []"
    and "gen_text b' = Some t'" and "toLowerCase (trim t') = toLowerCase (trim t)"
  shows "(\<forall>e. responseCache (toLowerCase (trim t)) = Some e \<and> now w - timestamp e < CACHE_DURATION
            \<longrightarrow> POST_gemini (Some k) up (Inr (Some b)) responseCache w
                = (NextResponse_json (Reply (response e)) 200, responseCache, w))
       \<and> (\<forall>r1 c1 w1 w2.
             POST_gemini (Some k) up (Inr (Some b)) responseCache w = (r1, c1, w1)
             \<and> http_status r1 = 200 \<and> sent w1 \<noteq> sent w
             \<and> sent w2 = sent w1 \<and> now w2 - now w1 < CACHE_DURATION
            \<longrightarrow> POST_gemini (Some k) up (Inr (Some b')) c1 w2 = (r1, c1, w2)
                \<and> sent w2 = sent w @ [gemini_fetch_request k (buildTutorPrompt (trim t))])"
proof (intro conjI allI impI)
  fix e
  assume "responseCache (toLowerCase (trim t)) = Some e \<and> now w - timestamp e < CACHE_DURATION"
  then show "POST_gemini (Some k) up (Inr (Some b)) responseCache w
      = (NextResponse_json (Reply (response e)) 200, responseCache, w)"
    using assms by (simp add: POST_gemini_def)
next
  fix r1 c1 and w1 w2 :: "gemini_request world"
  assume h: "POST_gemini (Some k) up (Inr (Some b)) responseCache w = (r1, c1, w1)
             \<and> http_status r1 = 200 \<and> sent w1 \<noteq> sent w
             \<and> sent w2 = sent w1 \<and> now w2 - now w1 < CACHE_DURATION"
  let ?ck = "toLowerCase (trim t)"
  from h assms have g: "gemini_generate up k (trim t) ?ck responseCache w = (r1, c1, w1)"
    by (auto simp: POST_gemini_def Let_def split: option.splits if_splits)
  from gemini_generate_200 [OF g] h obtain e where
    e: "c1 = responseCache(?ck \<mapsto> e)" "timestamp e = now w1" "r1 = NextResponse_json (Reply (response e)) 200"
    by blast
  have t': "trim t' \<noteq> []"
    using assms(3,5) toLowerCase_Nil_iff by metis
  show "POST_gemini (Some k) up (Inr (Some b')) c1 w2 = (r1, c1, w2)"
    using assms t' e h by (simp add: POST_gemini_def)
  show "sent w2 = sent w @ [gemini_fetch_request k (buildTutorPrompt (trim t))]"
    using gemini_generate_sent [OF g] h by simp
qed

theorem generate_cache_hit_witness:
  "POST_gemini (Some ''key'') hello_upstream (Inr (Some \<lparr>gen_text = Some ''HELLO ''\<rparr>))
       [''hello'' \<mapsto> \<lparr>response = JString ''Hi there!'', timestamp = 1000\<rparr>]
       \<lparr>now = 300999, sent = [], console = []\<rparr>
     = (NextResponse_json (Reply (JString ''Hi there!'')) 200,
        [''hello'' \<mapsto> \<lparr>response = JString ''Hi there!'', timestamp = 1000\<rparr>],
        \<lparr>now = 300999, sent = [], console = []\<rparr>)
   \<and> POST_gemini (Some ''key'') hello_upstream (Inr (Some \<lparr>gen_text = Some '' Hello''\<rparr>))
       Map.empty \<lparr>now = 0, sent = [], console = []\<rparr>
     = (NextResponse_json (Reply (JString ''Hi there!'')) 200,
        [''hello'' \<mapsto> \<lparr>response = JString ''Hi there!'', timestamp = 250\<rparr>],
        \<lparr>now = 250, sent = [gemini_fetch_request ''key'' (buildTutorPrompt ''Hello'')], console = []\<rparr>)
   \<and> POST_gemini (Some ''key'') hello_upstream (Inr (Some \<lparr>gen_text = Some ''HELLO ''\<rparr>))
       [''hello'' \<mapsto> \<lparr>response = JString ''Hi there!'', timestamp = 250\<rparr>]
       \<lparr>now = 300249, sent = [gemini_fetch_request ''key'' (buildTutorPrompt ''Hello'')], console = []\<rparr>
     = (NextResponse_json (Reply (JString ''Hi there!'')) 200,
        [''hello'' \<mapsto> \<lparr>response = JString ''Hi there!'', timestamp = 250\<rparr>],
        \<lparr>now = 300249, sent = [gemini_fetch_request ''key'' (buildTutorPrompt ''Hello'')], console = []\<rparr>)"
proof -
  have t1: "trim ''HELLO '' = ''HELLO''" and t2: "trim '' Hello'' = ''Hello''"
    and l1: "toLowerCase ''HELLO'' = ''hello''" and l2: "toLowerCase ''Hello'' = ''hello''"
    by code_simp+
  have first: "POST_gemini (Some ''key'') hello_upstream (Inr (Some \<lparr>gen_text = Some '' Hello''\<rparr>))
       Map.empty \<lparr>now = 0, sent = [], console = []\<rparr>
     = (NextResponse_json (Reply (JString ''Hi there!'')) 200,
        [''hello'' \<mapsto> \<lparr>response = JString ''Hi there!'', timestamp = 250\<rparr>],
        \<lparr>now = 250, sent = [gemini_fetch_request ''key'' (buildTutorPrompt ''Hello'')], console = []\<rparr>)"
    by (simp add: POST_gemini_def gemini_generate_def fetch_def hello_upstream_def ok_def
        candidateText_def Let_def t2 l2)
  have hit: "POST_gemini (Some ''key'') hello_upstream (Inr (Some \<lparr>gen_text = Some ''HELLO ''\<rparr>))
       [''hello'' \<mapsto> \<lparr>response = JString ''Hi there!'', timestamp = 1000\<rparr>]
       \<lparr>now = 300999, sent = [], console = []\<rparr>
     = (NextResponse_json (Reply (JString ''Hi there!'')) 200,
        [''hello'' \<mapsto> \<lparr>response = JString ''Hi there!'', timestamp = 1000\<rparr>],
        \<lparr>now = 300999, sent = [], console = []\<rparr>)"
    using generate_cache_hit [where k = "''key''" and b = "\<lparr>gen_text = Some ''HELLO ''\<rparr>"
        and t = "''HELLO ''" and b' = "\<lparr>gen_text = Some ''HELLO ''\<rparr>" and t' = "''HELLO ''"
        and responseCache = "[''hello'' \<mapsto> \<lparr>response = JString ''Hi there!'', timestamp = 1000\<rparr>]"
        and w = "\<lparr>now = 300999, sent = [], console = []\<rparr>" and up = hello_upstream]
    by (simp add: t1 l1 CACHE_DURATION_def)
  have again: "POST_gemini (Some ''key'') hello_upstream (Inr (Some \<lparr>gen_text = Some ''HELLO ''\<rparr>))
       [''hello'' \<mapsto> \<lparr>response = JString ''Hi there!'', timestamp = 250\<rparr>]
       \<lparr>now = 300249, sent = [gemini_fetch_request ''key'' (buildTutorPrompt ''Hello'')], console = []\<rparr>
     = (NextResponse_json (Reply (JString ''Hi there!'')) 200,
        [''hello'' \<mapsto> \<lparr>response = JString ''Hi there!'', timestamp = 250\<rparr>],
        \<lparr>now = 300249, sent = [gemini_fetch_request ''key'' (buildTutorPrompt ''Hello'')], console = []\<rparr>)"
    using generate_cache_hit [where k = "''key''" and b = "\<lparr>gen_text = Some '' Hello''\<rparr>"
        and t = "'' Hello''" and b' = "\<lparr>gen_text = Some ''HELLO ''\<rparr>" and t' = "''HELLO ''"
        and responseCache = Map.empty
        and w = "\<lparr>now = 0, sent = [], console = []\<rparr>" and up = hello_upstream] first
    by (simp add: t1 t2 l1 l2 CACHE_DURATION_def NextResponse_json_def)
  from hit first again show ?thesis by blast
qed

lemma gemini_generate_cache:
  "fst (gemini_generate up k u ck c w) = fst (gemini_generate up k u ck c' w)
   \<and> snd (snd (gemini_generate up k u ck c w)) = snd (snd (gemini_generate up k u ck c' w))"
  by (simp add: gemini_generate_def Let_def split: prod.splits sum.splits)

lemma POST_gemini_miss:
  assumes "k \<noteq> []" and "gen_text b = Some t" and "trim t \<noteq> []"
    and "\<forall>e. responseCache (toLowerCase (trim t)) = Some e \<longrightarrow> CACHE_DURATION \<le> now w - timestamp e"
  shows "POST_gemini (Some k) up (Inr (Some b)) responseCache w
     = gemini_generate up k (trim t) (toLowerCase (trim t)) responseCache w"
  using assms by (auto simp: POST_gemini_def Let_def split: option.splits)

text \<open>
  C6. With the key configured (an entry is stored only by a call that had the key) and a
  text that is not blank: when the entry under the normalized key is 5 minutes old or older (\<open>CACHE_DURATION \<le> Date.now() - timestamp\<close>),
  \<open>POST\<close> answers, and leaves the world, as it does with no entry under that key; it
  sends the request upstream; and when the model answers with a success whose body parses,
  the entry is replaced by the new reply with the time read after the answer.
\<close>

theorem expired_entry_not_served:
  assumes "k \<noteq> []" and "gen_text b = Some t" and "trim t \<noteq> []"
    and "responseCache (toLowerCase (trim t)) = Some e"
    and "CACHE_DURATION \<le> now w - timestamp e"
  shows "fst (POST_gemini (Some k) up (Inr (Some b)) responseCache w)
          = fst (POST_gemini (Some k) up (Inr (Some b)) (responseCache(toLowerCase (trim t) := None)) w)
       \<and> snd (snd (POST_gemini (Some k) up (Inr (Some b)) responseCache w))
          = snd (snd (POST_gemini (Some k) up (Inr (Some b))
                        (responseCache(toLowerCase (trim t) := None)) w))
       \<and> sent (snd (snd (POST_gemini (Some k) up (Inr (Some b)) responseCache w)))
          = sent w @ [gemini_fetch_request k (buildTutorPrompt (trim t))]
       \<and> (\<forall>ms res data.
             up (sent w) (gemini_fetch_request k (buildTutorPrompt (trim t))) = Responds ms res
             \<and> ok res \<and> json_body res = Inr data
            \<longrightarrow> POST_gemini (Some k) up (Inr (Some b)) responseCache w
                = (NextResponse_json (Reply (candidateText data)) 200,
                   responseCache(toLowerCase (trim t) \<mapsto>
                     \<lparr>response = candidateText data, timestamp = now w + int ms\<rparr>),
                   w\<lparr>now := now w + int ms,
                     sent := sent w @ [gemini_fetch_request k (buildTutorPrompt (trim t))]\<rparr>))"
proof -
  let ?ck = "toLowerCase (trim t)"
  have p: "POST_gemini (Some k) up (Inr (Some b)) responseCache w
      = gemini_generate up k (trim t) ?ck responseCache w"
    using assms by (intro POST_gemini_miss) auto
  have q: "POST_gemini (Some k) up (Inr (Some b)) (responseCache(?ck := None)) w
      = gemini_generate up k (trim t) ?ck (responseCache(?ck := None)) w"
    using assms by (intro POST_gemini_miss) auto
  obtain r c' w' where g: "gemini_generate up k (trim t) ?ck responseCache w = (r, c', w')"
    by (cases "gemini_generate up k (trim t) ?ck responseCache w") auto
  show ?thesis
    unfolding p q using gemini_generate_cache [of up k "trim t" ?ck responseCache w]
      gemini_generate_sent [OF g] g
    by (auto simp: gemini_generate_success)
qed

theorem expired_entry_not_served_witness:
  "POST_gemini (Some ''key'') hello_upstream (Inr (Some \<lparr>gen_text = Some ''Hello''\<rparr>))
       [''hello'' \<mapsto> \<lparr>response = JString ''old reply'', timestamp = 0\<rparr>]
       \<lparr>now = 300000, sent = [], console = []\<rparr>
     = (NextResponse_json (Reply (JString ''Hi there!'')) 200,
        [''hello'' \<mapsto> \<lparr>response = JString ''Hi there!'', timestamp = 300250\<rparr>],
        \<lparr>now = 300250, sent = [gemini_fetch_request ''key'' (buildTutorPrompt ''Hello'')],
           console = []\<rparr>)"
proof -
  have t: "trim ''Hello'' = ''Hello''" and l: "toLowerCase ''Hello'' = ''hello''"
    by code_simp+
  show ?thesis
    using expired_entry_not_served [where k = "''key''" and b = "\<lparr>gen_text = Some ''Hello''\<rparr>"
        and t = "''Hello''" and e = "\<lparr>response = JString ''old reply'', timestamp = 0\<rparr>"
        and responseCache = "[''hello'' \<mapsto> \<lparr>response = JString ''old reply'', timestamp = 0\<rparr>]"
        and w = "\<lparr>now = 300000, sent = [], console = []\<rparr>" and up = hello_upstream]
    by (simp add: t l CACHE_DURATION_def hello_upstream_def ok_def candidateText_def)
qed

lemma optional_get_member: "optional (get_member name) v = Option.bind v (get_member name)"
  by (cases "(get_member name, v)" rule: optional.cases) simp_all

lemma optional_get_index0: "optional get_index0 v = Option.bind v get_index0"
  by (cases "(get_index0, v)" rule: optional.cases) simp_all

lemma coalesce_eq: "coalesce v d = (case v of None \<Rightarrow> d | Some x \<Rightarrow> if x = JNull then d else x)"
  by (cases "(v, d)" rule: coalesce.cases) simp_all

text \<open>
  C8, as stated, fails where a level is malformed and still has the member read next, and
  where the text is not a string: a candidate whose \<open>text\<close> is the number 42 gives the
  reply 42, which is stored and returned as it is, and a \<open>parts\<close> that is an object
  with a member \<open>0\<close> is read like an array. Neither result is the empty string.
\<close>

theorem candidate_text_is_not_always_a_string:
  "candidateText (JObject [(''candidates'', JArray [JObject [(''content'',
       JObject [(''parts'', JArray [JObject [(''text'', JNumber 42)]])])]])]) = JNumber 42
   \<and> candidateText (JObject [(''candidates'', JArray [JObject [(''content'',
       JObject [(''parts'', JObject [(''0'', JObject [(''text'', JString ''Hi'')])])])]])])
     = JString ''Hi''
   \<and> POST_gemini (Some ''key'') number_upstream (Inr (Some \<lparr>gen_text = Some ''Hello''\<rparr>))
       Map.empty \<lparr>now = 0, sent = [], console = []\<rparr>
     = (NextResponse_json (Reply (JNumber 42)) 200,
        [''hello'' \<mapsto> \<lparr>response = JNumber 42, timestamp = 80\<rparr>],
        \<lparr>now = 80, sent = [gemini_fetch_request ''key'' (buildTutorPrompt ''Hello'')],
           console = []\<rparr>)"
proof -
  have t: "trim ''Hello'' = ''Hello''" and l: "toLowerCase ''Hello'' = ''hello''"
    by code_simp+
  show ?thesis
    by (simp add: candidateText_def POST_gemini_def gemini_generate_def fetch_def
        number_upstream_def ok_def Let_def t l)
qed

text \<open>
  C8, amended. \<open>candidateText\<close> is a function of the parsed body with a value for every
  body, so the extraction never throws. Its value is the one found at
  \<open>candidates[0].content.parts[0].text\<close>, returned as it is, string or not; it is the
  empty string when a step of that path finds nothing or the path ends in \<open>null\<close>, and
  it is never \<open>null\<close>. For a body of the declared shape it is the first candidate's
  text. A step finds nothing on a value of a kind without the member read: \<open>v.name\<close>
  on anything but an object; \<open>v[0]\<close> on \<open>null\<close>, a boolean, a number, the empty
  string and the empty array. When the model answers a request that the cache did not
  answer with a success whose body parses, the extracted value, the empty string or not, is
  stored under the cache key with the time read after the answer, and is the reply.
\<close>

theorem candidate_text_total_and_cached:
  "candidateText data =
     (case get_member ''candidates'' data of None \<Rightarrow> JString []
      | Some cs \<Rightarrow>
         (case get_index0 cs of None \<Rightarrow> JString []
          | Some c \<Rightarrow>
             (case get_member ''content'' c of None \<Rightarrow> JString []
              | Some ct \<Rightarrow>
                 (case get_member ''parts'' ct of None \<Rightarrow> JString []
                  | Some ps \<Rightarrow>
                     (case get_index0 ps of None \<Rightarrow> JString []
                      | Some p \<Rightarrow>
                         (case get_member ''text'' p of None \<Rightarrow> JString []
                          | Some v \<Rightarrow> if v = JNull then JString [] else v))))))
   \<and> candidateText data \<noteq> JNull
   \<and> candidateText
         (JObject [(''candidates'', JArray (JObject [(''content'',
            JObject [(''parts'', JArray (JObject [(''text'', JString s)] # ps'))])] # cs'))])
       = JString s
   \<and> ((\<forall>kvs. x \<noteq> JObject kvs) \<longrightarrow> get_member name x = None)
   \<and> (x = JNull \<or> (\<exists>b. x = JBool b) \<or> (\<exists>r. x = JNumber r) \<or> x = JString [] \<or> x = JArray []
        \<longrightarrow> get_index0 x = None)
   \<and> (k \<noteq> [] \<and> gen_text b = Some u \<and> trim u \<noteq> []
        \<and> (\<forall>e. responseCache (toLowerCase (trim u)) = Some e
               \<longrightarrow> CACHE_DURATION \<le> now w - timestamp e)
        \<and> up (sent w) (gemini_fetch_request k (buildTutorPrompt (trim u))) = Responds ms res
        \<and> ok res \<and> json_body res = Inr data
       \<longrightarrow> POST_gemini (Some k) up (Inr (Some b)) responseCache w
           = (NextResponse_json (Reply (candidateText data)) 200,
              responseCache(toLowerCase (trim u) \<mapsto>
                \<lparr>response = candidateText data, timestamp = now w + int ms\<rparr>),
              w\<lparr>now := now w + int ms,
                sent := sent w @ [gemini_fetch_request k (buildTutorPrompt (trim u))]\<rparr>))"
proof (intro conjI impI)
  have m: "get_member name JNull = None" for name
    by simp
  show c: "candidateText data =
     (case get_member ''candidates'' data of None \<Rightarrow> JString []
      | Some cs \<Rightarrow>
         (case get_index0 cs of None \<Rightarrow> JString []
          | Some c \<Rightarrow>
             (case get_member ''content'' c of None \<Rightarrow> JString []
              | Some ct \<Rightarrow>
                 (case get_member ''parts'' ct of None \<Rightarrow> JString []
                  | Some ps \<Rightarrow>
                     (case get_index0 ps of None \<Rightarrow> JString []
                      | Some p \<Rightarrow>
                         (case get_member ''text'' p of None \<Rightarrow> JString []
                          | Some v \<Rightarrow> if v = JNull then JString [] else v))))))"
    by (simp add: candidateText_def optional_get_member optional_get_index0 coalesce_eq
        split: option.splits)
  show "candidateText data \<noteq> JNull"
    unfolding c by (simp split: option.splits)
  show "candidateText
         (JObject [(''candidates'', JArray (JObject [(''content'',
            JObject [(''parts'', JArray (JObject [(''text'', JString s)] # ps'))])] # cs'))])
       = JString s"
    by (simp add: candidateText_def)
next
  assume "\<forall>kvs. x \<noteq> JObject kvs"
  then show "get_member name x = None"
    by (cases x) simp_all
next
  assume "x = JNull \<or> (\<exists>b. x = JBool b) \<or> (\<exists>r. x = JNumber r) \<or> x = JString [] \<or> x = JArray []"
  then show "get_index0 x = None"
    by auto
next
  assume h: "k \<noteq> [] \<and> gen_text b = Some u \<and> trim u \<noteq> []
        \<and> (\<forall>e. responseCache (toLowerCase (trim u)) = Some e
               \<longrightarrow> CACHE_DURATION \<le> now w - timestamp e)
        \<and> up (sent w) (gemini_fetch_request k (buildTutorPrompt (trim u))) = Responds ms res
        \<and> ok res \<and> json_body res = Inr data"
  then have "POST_gemini (Some k) up (Inr (Some b)) responseCache w
      = gemini_generate up k (trim u) (toLowerCase (trim u)) responseCache w"
    by (intro POST_gemini_miss) auto
  with h show "POST_gemini (Some k) up (Inr (Some b)) responseCache w
           = (NextResponse_json (Reply (candidateText data)) 200,
              responseCache(toLowerCase (trim u) \<mapsto>
                \<lparr>response = candidateText data, timestamp = now w + int ms\<rparr>),
              w\<lparr>now := now w + int ms,
                sent := sent w @ [gemini_fetch_request k (buildTutorPrompt (trim u))]\<rparr>)"
    by (simp add: gemini_generate_success)
qed

theorem candidate_text_total_and_cached_witness:
  "candidateText (JObject [(''candidates'', JArray [JObject [(''content'', JNumber 5)]])])
     = JString []
   \<and> get_member ''parts'' (JNumber 5) = None
   \<and> get_index0 (JArray []) = None
   \<and> POST_gemini (Some ''key'') malformed_upstream (Inr (Some \<lparr>gen_text = Some ''Hello''\<rparr>))
       Map.empty \<lparr>now = 0, sent = [], console = []\<rparr>
     = (NextResponse_json (Reply (JString [])) 200,
        [''hello'' \<mapsto> \<lparr>response = JString [], timestamp = 80\<rparr>],
        \<lparr>now = 80, sent = [gemini_fetch_request ''key'' (buildTutorPrompt ''Hello'')],
           console = []\<rparr>)"
proof -
  have t: "trim ''Hello'' = ''Hello''" and l: "toLowerCase ''Hello'' = ''hello''"
    by code_simp+
  show ?thesis
    using candidate_text_total_and_cached [where
        data = "JObject [(''candidates'', JArray [JObject [(''content'', JNumber 5)]])]"
        and x = "JNumber 5" and name = "''parts''"
        and k = "''key''" and b = "\<lparr>gen_text = Some ''Hello''\<rparr>" and u = "''Hello''"
        and responseCache = Map.empty and w = "\<lparr>now = 0, sent = [], console = []\<rparr>"
        and up = malformed_upstream and ms = 80
        and res = "\<lparr>status = 200, text_body = ''(content 5)'',
             json_body = Inr (JObject [(''candidates'', JArray [JObject [(''content'',
               JNumber 5)]])])\<rparr>"]
    by (simp add: t l malformed_upstream_def ok_def)
qed

section \<open>Properties of both routes\<close>

lemma trim_eq_Nil_iff: "trim s = [] \<longleftrightarrow> (\<forall>c\<in>set s. isWhiteSpace c)"
proof
  assume "trim s = []"
  then have a: "\<forall>c\<in>set (dropWhile isWhiteSpace s). isWhiteSpace c"
    by (simp add: trim_def dropWhile_eq_Nil_conv)
  have "dropWhile isWhiteSpace s = []"
  proof (rule ccontr)
    assume n: "dropWhile isWhiteSpace s \<noteq> []"
    then have "\<not> isWhiteSpace (hd (dropWhile isWhiteSpace s))"
      by (rule hd_dropWhile)
    with a n show False by simp
  qed
  then show "\<forall>c\<in>set s. isWhiteSpace c"
    by (simp add: dropWhile_eq_Nil_conv)
next
  assume "\<forall>c\<in>set s. isWhiteSpace c"
  then show "trim s = []"
    by (auto simp: trim_def dest: set_dropWhileD)
qed

lemma did_auth_truthy:
  "truthy (studioApiKey (did_auth env)) \<or> truthy (basicAuth (did_auth env))
   \<longleftrightarrow> truthy (DID_API_KEY env) \<or> truthy (NEXT_PUBLIC_DID_API_KEY env) \<or> truthy (DID_BASIC_AUTH env)"
  by (auto simp: did_auth_def or_else_def)

text \<open>
  C10. In both routes the credentials are looked at first. When
  \<open>GOOGLE_GENERATIVE_API_KEY\<close> is unset or empty, the text route answers 500 with
  \<open>Missing GOOGLE_GENERATIVE_API_KEY\<close>, whatever \<open>request.json()\<close> would give (a
  body with a blank text, a body that does not parse), and leaves the cache and the world
  as they were. When \<open>DID_API_KEY\<close>, \<open>NEXT_PUBLIC_DID_API_KEY\<close> and
  \<open>DID_BASIC_AUTH\<close> are all unset or empty, the video route answers 500 with
  \<open>Missing D-ID credentials\<close>, whatever the request, and sends nothing.
\<close>

theorem credentials_checked_first:
  "(\<not> truthy apiKey
      \<longrightarrow> POST_gemini apiKey gup greq responseCache gw
          = (NextResponse_json (Failure ''Missing GOOGLE_GENERATIVE_API_KEY'' None None) 500,
             responseCache, gw))
   \<and> (\<not> truthy (DID_API_KEY env) \<and> \<not> truthy (NEXT_PUBLIC_DID_API_KEY env)
        \<and> \<not> truthy (DID_BASIC_AUTH env)
      \<longrightarrow> fst (POST_did env dup dreq dw)
            = NextResponse_json
                (DidFailure ''Missing D-ID credentials'' (Some ''Set DID_API_KEY or DID_BASIC_AUTH'')
                   None None) 500
          \<and> sent (snd (POST_did env dup dreq dw)) = sent dw
          \<and> now (snd (POST_did env dup dreq dw)) = now dw)"
proof (intro conjI impI)
  assume "\<not> truthy apiKey"
  then show "POST_gemini apiKey gup greq responseCache gw
          = (NextResponse_json (Failure ''Missing GOOGLE_GENERATIVE_API_KEY'' None None) 500,
             responseCache, gw)"
    by (cases apiKey) (simp_all add: POST_gemini_def gemini_missing_key_def)
next
  assume "\<not> truthy (DID_API_KEY env) \<and> \<not> truthy (NEXT_PUBLIC_DID_API_KEY env)
        \<and> \<not> truthy (DID_BASIC_AUTH env)"
  then have n: "\<not> (truthy (studioApiKey (did_auth env)) \<or> truthy (basicAuth (did_auth env)))"
    by (simp add: did_auth_truthy)
  then show "fst (POST_did env dup dreq dw)
            = NextResponse_json
                (DidFailure ''Missing D-ID credentials'' (Some ''Set DID_API_KEY or DID_BASIC_AUTH'')
                   None None) 500"
    and "sent (snd (POST_did env dup dreq dw)) = sent dw"
    and "now (snd (POST_did env dup dreq dw)) = now dw"
    by (simp_all add: POST_did_def Let_def did_missing_credentials_def console_write_def)
qed

theorem credentials_checked_first_witness:
  "POST_gemini (Some []) hello_upstream (Inr (Some \<lparr>gen_text = Some []\<rparr>)) Map.empty
       \<lparr>now = 0, sent = [], console = []\<rparr>
     = (NextResponse_json (Failure ''Missing GOOGLE_GENERATIVE_API_KEY'' None None) 500,
        Map.empty, \<lparr>now = 0, sent = [], console = []\<rparr>)
   \<and> fst (POST_did no_credentials refusing_upstream
            (Inr (Some \<lparr>did_text = Some [], source_url = None, voice_id = None\<rparr>))
            \<lparr>now = 0, sent = [], console = []\<rparr>)
     = NextResponse_json
         (DidFailure ''Missing D-ID credentials'' (Some ''Set DID_API_KEY or DID_BASIC_AUTH'')
            None None) 500
   \<and> sent (snd (POST_did no_credentials refusing_upstream
            (Inr (Some \<lparr>did_text = Some [], source_url = None, voice_id = None\<rparr>))
            \<lparr>now = 0, sent = [], console = []\<rparr>)) = []"
  using credentials_checked_first [where apiKey = "Some []" and gup = hello_upstream
      and greq = "Inr (Some \<lparr>gen_text = Some []\<rparr>)" and responseCache = Map.empty
      and gw = "\<lparr>now = 0, sent = [], console = []\<rparr>" and env = no_credentials
      and dup = refusing_upstream
      and dreq = "Inr (Some \<lparr>did_text = Some [], source_url = None, voice_id = None\<rparr>)"
      and dw = "\<lparr>now = 0, sent = [], console = []\<rparr>"]
  by (simp add: no_credentials_def)

text \<open>
  C7, as stated, fails where the credentials are missing: a blank text is then answered
  with the 500 of the missing credentials, not with 400.
\<close>

theorem blank_text_without_credentials:
  "http_status (fst (POST_gemini None hello_upstream (Inr (Some \<lparr>gen_text = Some ''   ''\<rparr>))
       Map.empty \<lparr>now = 0, sent = [], console = []\<rparr>)) = 500
   \<and> http_status (fst (POST_did no_credentials refusing_upstream
        (Inr (Some \<lparr>did_text = Some ''   '', source_url = None, voice_id = None\<rparr>))
        \<lparr>now = 0, sent = [], console = []\<rparr>)) = 500"
  by (simp add: POST_gemini_def gemini_missing_key_def POST_did_def Let_def did_auth_def
      or_else_def no_credentials_def did_missing_credentials_def NextResponse_json_def)

text \<open>
  C7, amended. With the credentials configured, a text that is empty or made of white
  space only is answered with 400 and \<open>Missing 'text'\<close> by both routes. The text route
  leaves the cache and the world as they were, and its answer is the same for every cache
  and every upstream service: no entry is read or written and nothing is sent. The video
  route sends nothing either.
\<close>

theorem blank_text_rejected:
  assumes "\<forall>c\<in>set t. isWhiteSpace c"
  shows "(truthy apiKey \<and> gen_text gb = Some t
            \<longrightarrow> POST_gemini apiKey gup (Inr (Some gb)) responseCache gw
                = (NextResponse_json
                     (Failure (''Missing '' @ apostrophe @ ''text'' @ apostrophe) None None) 400,
                   responseCache, gw))
       \<and> ((truthy (DID_API_KEY env) \<or> truthy (NEXT_PUBLIC_DID_API_KEY env)
             \<or> truthy (DID_BASIC_AUTH env)) \<and> did_text db = Some t
            \<longrightarrow> fst (POST_did env dup (Inr (Some db)) dw)
                  = NextResponse_json
                      (DidFailure (''Missing '' @ apostrophe @ ''text'' @ apostrophe) None None None)
                      400
                \<and> sent (snd (POST_did env dup (Inr (Some db)) dw)) = sent dw
                \<and> now (snd (POST_did env dup (Inr (Some db)) dw)) = now dw)"
proof (intro conjI impI)
  have t: "trim t = []"
    using assms by (simp add: trim_eq_Nil_iff)
  {
    assume "truthy apiKey \<and> gen_text gb = Some t"
    then show "POST_gemini apiKey gup (Inr (Some gb)) responseCache gw
                = (NextResponse_json
                     (Failure (''Missing '' @ apostrophe @ ''text'' @ apostrophe) None None) 400,
                   responseCache, gw)"
      using t by (cases apiKey) (simp_all add: POST_gemini_def gemini_missing_text_def)
  }
  assume h: "(truthy (DID_API_KEY env) \<or> truthy (NEXT_PUBLIC_DID_API_KEY env)
             \<or> truthy (DID_BASIC_AUTH env)) \<and> did_text db = Some t"
  then have c: "truthy (studioApiKey (did_auth env)) \<or> truthy (basicAuth (did_auth env))"
    by (simp add: did_auth_truthy)
  have "POST_did env dup (Inr (Some db)) dw = (did_missing_text, console_write
                 (''DID auth present: true'') dw)"
    using c h t by (auto simp: POST_did_def Let_def)
  then show "fst (POST_did env dup (Inr (Some db)) dw)
                  = NextResponse_json
                      (DidFailure (''Missing '' @ apostrophe @ ''text'' @ apostrophe) None None None)
                      400"
    and "sent (snd (POST_did env dup (Inr (Some db)) dw)) = sent dw"
    and "now (snd (POST_did env dup (Inr (Some db)) dw)) = now dw"
    by (simp_all add: did_missing_text_def console_write_def)
qed

theorem blank_text_rejected_witness:
  "POST_gemini (Some ''key'') hello_upstream (Inr (Some \<lparr>gen_text = Some ''   ''\<rparr>)) Map.empty
       \<lparr>now = 0, sent = [], console = []\<rparr>
     = (NextResponse_json
          (Failure (''Missing '' @ apostrophe @ ''text'' @ apostrophe) None None) 400,
        Map.empty, \<lparr>now = 0, sent = [], console = []\<rparr>)
   \<and> fst (POST_did studio_env refusing_upstream
            (Inr (Some \<lparr>did_text = Some ''   '', source_url = None, voice_id = None\<rparr>))
            \<lparr>now = 0, sent = [], console = []\<rparr>)
     = NextResponse_json
         (DidFailure (''Missing '' @ apostrophe @ ''text'' @ apostrophe) None None None) 400
   \<and> sent (snd (POST_did studio_env refusing_upstream
            (Inr (Some \<lparr>did_text = Some ''   '', source_url = None, voice_id = None\<rparr>))
            \<lparr>now = 0, sent = [], console = []\<rparr>)) = []"
proof -
  have b: "isWhiteSpace CHR '' ''"
    by code_simp
  show ?thesis
    using blank_text_rejected [where t = "''   ''" and apiKey = "Some ''key''"
        and gb = "\<lparr>gen_text = Some ''   ''\<rparr>" and gup = hello_upstream
        and responseCache = Map.empty and gw = "\<lparr>now = 0, sent = [], console = []\<rparr>"
        and env = studio_env and dup = refusing_upstream
        and db = "\<lparr>did_text = Some ''   '', source_url = None, voice_id = None\<rparr>"
        and dw = "\<lparr>now = 0, sent = [], console = []\<rparr>"]
    by (simp add: b studio_env_def)
qed

section \<open>Properties of the avatar video route\<close>

lemma sent_console_write [simp]: "sent (console_write l w) = sent w"
  and now_console_write [simp]: "now (console_write l w) = now w"
  by (simp_all add: console_write_def)

lemma startsWith_append: "startsWith (p @ r) p"
  by (induction p) auto

lemma nonblank_Some: "trim s \<noteq> [] \<Longrightarrow> nonblank (Some s) = Some (trim s)"
  by (auto simp: nonblank_def trim_Nil)

lemma createTalk_first_ok:
  assumes "up (sent w) (makeReqV1 (buildAuthHeaders a) (primaryBody text sourceUrl)) = Responds ms res"
    and "ok res"
  shows "fst (createTalk up a text sourceUrl voiceId w) = json_body res"
    and "sent (snd (createTalk up a text sourceUrl voiceId w))
        = sent w @ [makeReqV1 (buildAuthHeaders a) (primaryBody text sourceUrl)]"
  using assms by (simp_all add: createTalk_def fetch_def createTalk_return_def Let_def)

lemma createTalk_second_ok:
  assumes "up (sent w) (makeReqV1 (buildAuthHeaders a) (primaryBody text sourceUrl)) = Responds ms1 res1"
    and "\<not> ok res1"
    and "up (sent w @ [makeReqV1 (buildAuthHeaders a) (primaryBody text sourceUrl)])
           (makeReqV1 (buildAuthHeaders a) (secondaryBody text sourceUrl voiceId)) = Responds ms res"
    and "ok res"
  shows "fst (createTalk up a text sourceUrl voiceId w) = json_body res"
    and "sent (snd (createTalk up a text sourceUrl voiceId w))
        = sent w @ [makeReqV1 (buildAuthHeaders a) (primaryBody text sourceUrl),
                    makeReqV1 (buildAuthHeaders a) (secondaryBody text sourceUrl voiceId)]"
  using assms by (simp_all add: createTalk_def fetch_def createTalk_return_def Let_def)

lemma createTalk_third_ok:
  assumes "up (sent w) (makeReqV1 (buildAuthHeaders a) (primaryBody text sourceUrl)) = Responds ms1 res1"
    and "\<not> ok res1"
    and "up (sent w @ [makeReqV1 (buildAuthHeaders a) (primaryBody text sourceUrl)])
           (makeReqV1 (buildAuthHeaders a) (secondaryBody text sourceUrl voiceId)) = Responds ms2 res2"
    and "\<not> ok res2"
    and "up (sent w @ [makeReqV1 (buildAuthHeaders a) (primaryBody text sourceUrl),
                       makeReqV1 (buildAuthHeaders a) (secondaryBody text sourceUrl voiceId)])
           (makeReqLegacy (buildAuthHeaders a) (primaryBody text sourceUrl)) = Responds ms res"
    and "ok res"
  shows "fst (createTalk up a text sourceUrl voiceId w) = json_body res"
    and "sent (snd (createTalk up a text sourceUrl voiceId w))
        = sent w @ [makeReqV1 (buildAuthHeaders a) (primaryBody text sourceUrl),
                    makeReqV1 (buildAuthHeaders a) (secondaryBody text sourceUrl voiceId),
                    makeReqLegacy (buildAuthHeaders a) (primaryBody text sourceUrl)]"
  using assms by (simp_all add: createTalk_def fetch_def createTalk_return_def Let_def)

lemma createTalk_fourth:
  assumes "up (sent w) (makeReqV1 (buildAuthHeaders a) (primaryBody text sourceUrl)) = Responds ms1 res1"
    and "\<not> ok res1"
    and "up (sent w @ [makeReqV1 (buildAuthHeaders a) (primaryBody text sourceUrl)])
           (makeReqV1 (buildAuthHeaders a) (secondaryBody text sourceUrl voiceId)) = Responds ms2 res2"
    and "\<not> ok res2"
    and "up (sent w @ [makeReqV1 (buildAuthHeaders a) (primaryBody text sourceUrl),
                       makeReqV1 (buildAuthHeaders a) (secondaryBody text sourceUrl voiceId)])
           (makeReqLegacy (buildAuthHeaders a) (primaryBody text sourceUrl)) = Responds ms3 res3"
    and "\<not> ok res3"
    and "up (sent w @ [makeReqV1 (buildAuthHeaders a) (primaryBody text sourceUrl),
                       makeReqV1 (buildAuthHeaders a) (secondaryBody text sourceUrl voiceId),
                       makeReqLegacy (buildAuthHeaders a) (primaryBody text sourceUrl)])
           (makeReqLegacy (buildAuthHeaders a) (secondaryBody text sourceUrl voiceId)) = Responds ms res"
  shows "fst (createTalk up a text sourceUrl voiceId w)
        = (if ok res then json_body res else Inl (Error (''D-ID create error: '' @ text_body res)))"
    and "sent (snd (createTalk up a text sourceUrl voiceId w))
        = sent w @ [makeReqV1 (buildAuthHeaders a) (primaryBody text sourceUrl),
                    makeReqV1 (buildAuthHeaders a) (secondaryBody text sourceUrl voiceId),
                    makeReqLegacy (buildAuthHeaders a) (primaryBody text sourceUrl),
                    makeReqLegacy (buildAuthHeaders a) (secondaryBody text sourceUrl voiceId)]"
    and "console (snd (createTalk up a text sourceUrl voiceId w))
        = console w @ [''D-ID v1 primary payload failed: '' @ text_body res1,
                       ''D-ID v1 secondary payload failed: '' @ text_body res2,
                       ''D-ID legacy primary failed: '' @ text_body res3]"
    and "now (snd (createTalk up a text sourceUrl voiceId w))
        = now w + int ms1 + int ms2 + int ms3 + int ms"
  using assms by (simp_all add: createTalk_def fetch_def createTalk_return_def Let_def console_write_def)

lemma createTalk_sent:
  "\<exists>n. 1 \<le> n \<and> n \<le> 4 \<and> sent (snd (createTalk up a text sourceUrl voiceId w))
      = sent w @ take n (tiers a text sourceUrl voiceId)"
proof -
  let ?t = "tiers a text sourceUrl voiceId"
  let ?s = "sent (snd (createTalk up a text sourceUrl voiceId w))"
  have "?s = sent w @ take 1 ?t \<or> ?s = sent w @ take 2 ?t \<or> ?s = sent w @ take 3 ?t
        \<or> ?s = sent w @ take 4 ?t"
    by (simp add: createTalk_def fetch_def createTalk_return_def Let_def tiers_def
        split: fetch_outcome.splits)
  then show ?thesis
  proof (elim disjE)
    assume "?s = sent w @ take 1 ?t"
    then show ?thesis by (intro exI [of _ 1]) simp
  next
    assume "?s = sent w @ take 2 ?t"
    then show ?thesis by (intro exI [of _ 2]) simp
  next
    assume "?s = sent w @ take 3 ?t"
    then show ?thesis by (intro exI [of _ 3]) simp
  next
    assume "?s = sent w @ take 4 ?t"
    then show ?thesis by (intro exI [of _ 4]) simp
  qed
qed

lemma tiers_nth:
  "tiers a text sourceUrl voiceId ! 0 = makeReqV1 (buildAuthHeaders a) (primaryBody text sourceUrl)"
  "tiers a text sourceUrl voiceId ! Suc 0
     = makeReqV1 (buildAuthHeaders a) (secondaryBody text sourceUrl voiceId)"
  "tiers a text sourceUrl voiceId ! Suc (Suc 0)
     = makeReqLegacy (buildAuthHeaders a) (primaryBody text sourceUrl)"
  "tiers a text sourceUrl voiceId ! Suc (Suc (Suc 0))
     = makeReqLegacy (buildAuthHeaders a) (secondaryBody text sourceUrl voiceId)"
  by (simp_all add: tiers_def)

lemma tiers_take:
  "take 0 (tiers a text sourceUrl voiceId) = []"
  "take (Suc 0) (tiers a text sourceUrl voiceId)
     = [makeReqV1 (buildAuthHeaders a) (primaryBody text sourceUrl)]"
  "take (Suc (Suc 0)) (tiers a text sourceUrl voiceId)
     = [makeReqV1 (buildAuthHeaders a) (primaryBody text sourceUrl),
        makeReqV1 (buildAuthHeaders a) (secondaryBody text sourceUrl voiceId)]"
  "take (Suc (Suc (Suc 0))) (tiers a text sourceUrl voiceId)
     = [makeReqV1 (buildAuthHeaders a) (primaryBody text sourceUrl),
        makeReqV1 (buildAuthHeaders a) (secondaryBody text sourceUrl voiceId),
        makeReqLegacy (buildAuthHeaders a) (primaryBody text sourceUrl)]"
  "take (Suc (Suc (Suc (Suc 0)))) (tiers a text sourceUrl voiceId)
     = tiers a text sourceUrl voiceId"
  by (simp_all add: tiers_def)

lemma createTalk_stops_at_first_ok:
  assumes k: "k < 4"
    and fails: "\<forall>i<k. \<exists>ms' res'. up (sent w @ take i (tiers a text sourceUrl voiceId))
                  (tiers a text sourceUrl voiceId ! i) = Responds ms' res' \<and> \<not> ok res'"
    and succ: "up (sent w @ take k (tiers a text sourceUrl voiceId))
                  (tiers a text sourceUrl voiceId ! k) = Responds ms res"
    and ok: "ok res"
  shows "fst (createTalk up a text sourceUrl voiceId w) = json_body res
       \<and> sent (snd (createTalk up a text sourceUrl voiceId w))
          = sent w @ take (Suc k) (tiers a text sourceUrl voiceId)"
proof -
  from k consider "k = 0" | "k = Suc 0" | "k = Suc (Suc 0)" | "k = Suc (Suc (Suc 0))"
    by arith
  then show ?thesis
  proof cases
    case 1
    with succ ok show ?thesis
      using createTalk_first_ok [of up w a "text" sourceUrl ms res voiceId]
      by (simp add: tiers_nth tiers_take)
  next
    case 2
    from fails 2 obtain ms1 res1 where
      "up (sent w @ take 0 (tiers a text sourceUrl voiceId)) (tiers a text sourceUrl voiceId ! 0)
         = Responds ms1 res1 \<and> \<not> ok res1"
      by blast
    with succ ok 2 show ?thesis
      using createTalk_second_ok [of up w a "text" sourceUrl ms1 res1 voiceId ms res]
      by (simp add: tiers_nth tiers_take)
  next
    case 3
    from fails 3 obtain ms1 res1 where
      "up (sent w @ take 0 (tiers a text sourceUrl voiceId)) (tiers a text sourceUrl voiceId ! 0)
         = Responds ms1 res1 \<and> \<not> ok res1"
      by blast
    moreover from fails 3 obtain ms2 res2 where
      "up (sent w @ take (Suc 0) (tiers a text sourceUrl voiceId))
         (tiers a text sourceUrl voiceId ! Suc 0) = Responds ms2 res2 \<and> \<not> ok res2"
      by (metis lessI)
    ultimately show ?thesis
      using succ ok 3
        createTalk_third_ok [of up w a "text" sourceUrl ms1 res1 voiceId ms2 res2 ms res]
      by (simp add: tiers_nth tiers_take)
  next
    case 4
    from fails 4 obtain ms1 res1 where
      "up (sent w @ take 0 (tiers a text sourceUrl voiceId)) (tiers a text sourceUrl voiceId ! 0)
         = Responds ms1 res1 \<and> \<not> ok res1"
      by blast
    moreover from fails 4 obtain ms2 res2 where
      "up (sent w @ take (Suc 0) (tiers a text sourceUrl voiceId))
         (tiers a text sourceUrl voiceId ! Suc 0) = Responds ms2 res2 \<and> \<not> ok res2"
      by (metis Suc_lessI lessI less_Suc_eq zero_less_Suc)
    moreover from fails 4 obtain ms3 res3 where
      "up (sent w @ take (Suc (Suc 0)) (tiers a text sourceUrl voiceId))
         (tiers a text sourceUrl voiceId ! Suc (Suc 0)) = Responds ms3 res3 \<and> \<not> ok res3"
      by (metis lessI)
    ultimately show ?thesis
      using succ ok 4
        createTalk_fourth(1,2) [of up w a "text" sourceUrl ms1 res1 voiceId ms2 res2 ms3 res3 ms res]
      by (simp add: tiers_nth tiers_take) (simp add: tiers_def)
  qed
qed

text \<open>
  C2. The four submissions of \<open>createTalk\<close> are, in this order, the endpoint
  \<open>/v1/talks\<close> with the minimal payload, the same endpoint with the voice provider in
  the payload, the endpoint \<open>/talks\<close> with the minimal payload and with the voice
  provider; all four carry the headers of \<open>buildAuthHeaders\<close>. What \<open>createTalk\<close>
  sends is the first \<open>n\<close> of them, \<open>n\<close> from 1 to 4, in that order. When the
  submissions before the one at index \<open>k\<close> are answered with a status that is not a
  success and that one with a success, \<open>createTalk\<close> returns the JSON body of that
  answer (its \<open>id\<close>) and has sent the submissions up to it and no other; for \<open>k\<close> = 3
  this is the fourth tier after three failures.
\<close>

theorem createTalk_tries_tiers_in_order:
  "map (\<lambda>q. (url q, http_method q, body q)) (tiers a t sourceUrl voiceId)
     = [(''https://api.d-id.com/v1/talks'', ''POST'', Some (primaryBody t sourceUrl)),
        (''https://api.d-id.com/v1/talks'', ''POST'', Some (secondaryBody t sourceUrl voiceId)),
        (''https://api.d-id.com/talks'', ''POST'', Some (primaryBody t sourceUrl)),
        (''https://api.d-id.com/talks'', ''POST'', Some (secondaryBody t sourceUrl voiceId))]
   \<and> script_provider (body_script (primaryBody t sourceUrl)) = None
   \<and> script_provider (body_script (secondaryBody t sourceUrl voiceId))
       = Some \<lparr>provider_type = ''microsoft'', provider_voice_id = voiceId\<rparr>
   \<and> (\<forall>q\<in>set (tiers a t sourceUrl voiceId). headers q = buildAuthHeaders a)
   \<and> (\<exists>n. 1 \<le> n \<and> n \<le> 4
          \<and> sent (snd (createTalk up a t sourceUrl voiceId w))
             = sent w @ take n (tiers a t sourceUrl voiceId))
   \<and> (\<forall>k ms res.
         k < 4
         \<and> (\<forall>i<k. \<exists>ms' res'. up (sent w @ take i (tiers a t sourceUrl voiceId))
                       (tiers a t sourceUrl voiceId ! i) = Responds ms' res' \<and> \<not> ok res')
         \<and> up (sent w @ take k (tiers a t sourceUrl voiceId))
               (tiers a t sourceUrl voiceId ! k) = Responds ms res
         \<and> ok res
        \<longrightarrow> fst (createTalk up a t sourceUrl voiceId w) = json_body res
            \<and> sent (snd (createTalk up a t sourceUrl voiceId w))
               = sent w @ take (Suc k) (tiers a t sourceUrl voiceId))"
proof (intro conjI allI impI)
  show "map (\<lambda>q. (url q, http_method q, body q)) (tiers a t sourceUrl voiceId)
     = [(''https://api.d-id.com/v1/talks'', ''POST'', Some (primaryBody t sourceUrl)),
        (''https://api.d-id.com/v1/talks'', ''POST'', Some (secondaryBody t sourceUrl voiceId)),
        (''https://api.d-id.com/talks'', ''POST'', Some (primaryBody t sourceUrl)),
        (''https://api.d-id.com/talks'', ''POST'', Some (secondaryBody t sourceUrl voiceId))]"
    by (simp add: tiers_def makeReqV1_def makeReqLegacy_def)
  show "script_provider (body_script (primaryBody t sourceUrl)) = None"
    by (simp add: primaryBody_def)
  show "script_provider (body_script (secondaryBody t sourceUrl voiceId))
       = Some \<lparr>provider_type = ''microsoft'', provider_voice_id = voiceId\<rparr>"
    by (simp add: secondaryBody_def)
  show "\<forall>q\<in>set (tiers a t sourceUrl voiceId). headers q = buildAuthHeaders a"
    by (simp add: tiers_def makeReqV1_def makeReqLegacy_def)
  show "\<exists>n. 1 \<le> n \<and> n \<le> 4
          \<and> sent (snd (createTalk up a t sourceUrl voiceId w))
             = sent w @ take n (tiers a t sourceUrl voiceId)"
    by (rule createTalk_sent)
next
  fix k ms res
  assume h: "k < 4
         \<and> (\<forall>i<k. \<exists>ms' res'. up (sent w @ take i (tiers a t sourceUrl voiceId))
                       (tiers a t sourceUrl voiceId ! i) = Responds ms' res' \<and> \<not> ok res')
         \<and> up (sent w @ take k (tiers a t sourceUrl voiceId))
               (tiers a t sourceUrl voiceId ! k) = Responds ms res
         \<and> ok res"
  then have "fst (createTalk up a t sourceUrl voiceId w) = json_body res
       \<and> sent (snd (createTalk up a t sourceUrl voiceId w))
          = sent w @ take (Suc k) (tiers a t sourceUrl voiceId)"
    by (intro createTalk_stops_at_first_ok) auto
  then show "fst (createTalk up a t sourceUrl voiceId w) = json_body res"
    and "sent (snd (createTalk up a t sourceUrl voiceId w))
               = sent w @ take (Suc k) (tiers a t sourceUrl voiceId)"
    by simp_all
qed

theorem createTalk_tries_tiers_in_order_witness:
  "fst (createTalk legacy_voice_upstream both_auth ''Hello'' DEFAULT_SOURCE_URL DEFAULT_VOICE_ID
          \<lparr>now = 0, sent = [], console = []\<rparr>)
     = Inr \<lparr>talk_id = ''job4'', talk_status = ''created'', result_url = None, error = None\<rparr>
   \<and> sent (snd (createTalk legacy_voice_upstream both_auth ''Hello'' DEFAULT_SOURCE_URL
                   DEFAULT_VOICE_ID \<lparr>now = 0, sent = [], console = []\<rparr>))
     = tiers both_auth ''Hello'' DEFAULT_SOURCE_URL DEFAULT_VOICE_ID
   \<and> map headers (tiers both_auth ''Hello'' DEFAULT_SOURCE_URL DEFAULT_VOICE_ID)
     = replicate 4 (buildAuthHeaders both_auth)"
proof -
  let ?t = "tiers both_auth ''Hello'' DEFAULT_SOURCE_URL DEFAULT_VOICE_ID"
  let ?up = legacy_voice_upstream
  have f: "\<forall>i<3. \<exists>ms' res'. ?up ([] @ take i ?t) (?t ! i) = Responds ms' res' \<and> \<not> ok res'"
    by (simp add: numeral_3_eq_3 less_Suc_eq tiers_def legacy_voice_upstream_def makeReqV1_def
        makeReqLegacy_def primaryBody_def secondaryBody_def ok_def)
  have s: "?up ([] @ take 3 ?t) (?t ! 3)
     = Responds 120 \<lparr>status = 201, text_body = ''(created)'',
         json_body = Inr \<lparr>talk_id = ''job4'', talk_status = ''created'', result_url = None,
                         error = None\<rparr>\<rparr>"
    by (simp add: tiers_def legacy_voice_upstream_def makeReqLegacy_def secondaryBody_def)
  note T = createTalk_tries_tiers_in_order [where a = both_auth and t = "''Hello''"
        and sourceUrl = DEFAULT_SOURCE_URL and voiceId = DEFAULT_VOICE_ID
        and up = legacy_voice_upstream and w = "\<lparr>now = 0, sent = [], console = []\<rparr>"]
  have h: "\<forall>q\<in>set ?t. headers q = buildAuthHeaders both_auth"
    using T by blast
  have "fst (createTalk ?up both_auth ''Hello'' DEFAULT_SOURCE_URL DEFAULT_VOICE_ID
               \<lparr>now = 0, sent = [], console = []\<rparr>)
          = json_body \<lparr>status = 201, text_body = ''(created)'',
              json_body = Inr \<lparr>talk_id = ''job4'', talk_status = ''created'', result_url = None,
                              error = None\<rparr>\<rparr>
        \<and> sent (snd (createTalk ?up both_auth ''Hello'' DEFAULT_SOURCE_URL DEFAULT_VOICE_ID
               \<lparr>now = 0, sent = [], console = []\<rparr>))
          = sent \<lparr>now = 0, sent = [], console = []\<rparr> @ take (Suc 3) ?t"
    using T [THEN conjunct2, THEN conjunct2, THEN conjunct2, THEN conjunct2, THEN conjunct2,
        rule_format, of 3 120] f s
    by (simp add: ok_def)
  with h show ?thesis
    by (simp add: tiers_def numeral_eq_Suc)
qed

lemma tiers_headers: "\<forall>q\<in>set (tiers a t sourceUrl voiceId). headers q = buildAuthHeaders a"
  by (simp add: tiers_def makeReqV1_def makeReqLegacy_def)

text \<open>
  C9. When both credentials are given and neither is blank after trimming,
  \<open>buildAuthHeaders\<close> gives the content type and the \<open>Authorization\<close> header only: the
  trimmed Basic credential, with \<open>Basic\<close> and a blank before it unless it starts so, and
  no \<open>x-api-key\<close>. Every request \<open>createTalk\<close> sends carries these headers.
\<close>

theorem basic_auth_takes_precedence:
  assumes "basicAuth a = Some b" and "trim b \<noteq> []"
    and "studioApiKey a = Some s" and "trim s \<noteq> []"
  shows "buildAuthHeaders a
          = [(''Content-Type'', ''application/json''),
             (''Authorization'',
              if startsWith (trim b) ''Basic '' then trim b else ''Basic '' @ trim b)]
       \<and> (\<exists>v. map_of (buildAuthHeaders a) ''Authorization'' = Some v \<and> startsWith v ''Basic '')
       \<and> map_of (buildAuthHeaders a) ''x-api-key'' = None
       \<and> (\<forall>q\<in>set (drop (length (sent w)) (sent (snd (createTalk up a t sourceUrl voiceId w)))).
             headers q = buildAuthHeaders a)"
proof (intro conjI)
  show h: "buildAuthHeaders a
          = [(''Content-Type'', ''application/json''),
             (''Authorization'',
              if startsWith (trim b) ''Basic '' then trim b else ''Basic '' @ trim b)]"
    using assms by (simp add: buildAuthHeaders_def nonblank_Some)
  have "startsWith (''Basic '' @ trim b) ''Basic ''"
    by (rule startsWith_append)
  then show "\<exists>v. map_of (buildAuthHeaders a) ''Authorization'' = Some v \<and> startsWith v ''Basic ''"
    unfolding h by (cases "startsWith (trim b) ''Basic ''") simp_all
  show "map_of (buildAuthHeaders a) ''x-api-key'' = None"
    unfolding h by simp
  obtain n where "sent (snd (createTalk up a t sourceUrl voiceId w))
      = sent w @ take n (tiers a t sourceUrl voiceId)"
    using createTalk_sent by blast
  then have "set (drop (length (sent w)) (sent (snd (createTalk up a t sourceUrl voiceId w))))
      \<subseteq> set (tiers a t sourceUrl voiceId)"
    by (simp add: set_take_subset)
  then show "\<forall>q\<in>set (drop (length (sent w)) (sent (snd (createTalk up a t sourceUrl voiceId w)))).
             headers q = buildAuthHeaders a"
    using tiers_headers by blast
qed

theorem basic_auth_takes_precedence_witness:
  "buildAuthHeaders both_auth
     = [(''Content-Type'', ''application/json''), (''Authorization'', ''Basic dXNlcjpwYXNz'')]
   \<and> map_of (buildAuthHeaders both_auth) ''x-api-key'' = None
   \<and> list_all (\<lambda>q. headers q = [(''Content-Type'', ''application/json''),
                                   (''Authorization'', ''Basic dXNlcjpwYXNz'')])
       (sent (snd (createTalk legacy_voice_upstream both_auth ''Hello''
                     DEFAULT_SOURCE_URL DEFAULT_VOICE_ID \<lparr>now = 0, sent = [], console = []\<rparr>)))"
proof -
  have b: "trim '' dXNlcjpwYXNz '' = ''dXNlcjpwYXNz''" and s: "trim ''studio-key'' = ''studio-key''"
    by code_simp+
  show ?thesis
    using basic_auth_takes_precedence [where a = both_auth and b = "'' dXNlcjpwYXNz ''"
        and s = "''studio-key''" and w = "\<lparr>now = 0, sent = [], console = []\<rparr>"
        and up = legacy_voice_upstream and t = "''Hello''" and sourceUrl = DEFAULT_SOURCE_URL
        and voiceId = DEFAULT_VOICE_ID]
    by (simp add: both_auth_def b s list_all_iff)
qed

lemma POST_did_synthesize:
  assumes "truthy (DID_API_KEY env) \<or> truthy (NEXT_PUBLIC_DID_API_KEY env) \<or> truthy (DID_BASIC_AUTH env)"
    and "did_text b = Some t" and "trim t \<noteq> []"
  shows "POST_did env up (Inr (Some b)) w
     = synthesize up (did_auth env) (trim t) (did_sourceUrl (Some b)) (did_voiceId (Some b))
         (console_write ''DID auth present: true'' w)"
proof -
  have "truthy (studioApiKey (did_auth env)) \<or> truthy (basicAuth (did_auth env))"
    using assms(1) by (simp add: did_auth_truthy)
  then show ?thesis
    using assms(2,3) by (auto simp: POST_did_def Let_def)
qed

lemma poll_error:
  assumes "now w - startedAt < timeoutMs"
    and "fetchTalkStatus up a talkId w = (Inr s, w1)"
    and "talk_status s = ''error''"
  shows "poll up a talkId startedAt lastStatus w
     = (Inr (Returned (NextResponse_json
               (DidFailure ''D-ID processing error'' (error s) (Some talkId) None) 502)), w1)"
  using assms by (subst poll.simps) simp

lemma poll_again:
  assumes "now w - startedAt < timeoutMs"
    and "fetchTalkStatus up a talkId w = (Inr s, w1)"
    and "\<not> (talk_status s = ''done'' \<and> truthy (result_url s))"
    and "talk_status s \<noteq> ''error''"
  shows "poll up a talkId startedAt lastStatus w
     = poll up a talkId startedAt (talk_status s) (sleep intervalMs w1)"
  using assms by (subst poll.simps) auto

lemma poll_deadline:
  assumes "\<not> now w - startedAt < timeoutMs"
  shows "poll up a talkId startedAt lastStatus w = (Inr (Left None lastStatus), w)"
  using assms by (subst poll.simps) simp

lemma poll_polling:
  "polling up a talkId startedAt w0 lastStatus w \<Longrightarrow>
     poll up a talkId startedAt [] w0 = poll up a talkId startedAt lastStatus w"
  by (induction rule: polling.induct) (simp_all add: poll_again)

lemma poll_all_pending:
  assumes "polling up a talkId startedAt w0 lastStatus w"
    and "\<forall>ls w'. polling up a talkId startedAt w0 ls w' \<and> now w' - startedAt < timeoutMs
          \<longrightarrow> (\<exists>s w''. fetchTalkStatus up a talkId w' = (Inr s, w'')
                 \<and> \<not> (talk_status s = ''done'' \<and> truthy (result_url s))
                 \<and> talk_status s \<noteq> ''error'' \<and> P (talk_status s))"
  shows "\<exists>ls w'. poll up a talkId startedAt lastStatus w = (Inr (Left None ls), w')
          \<and> polling up a talkId startedAt w0 ls w' \<and> timeoutMs \<le> now w' - startedAt
          \<and> (P ls \<or> (ls = lastStatus \<and> w' = w))"
  using assms
proof (induction up a talkId startedAt lastStatus w rule: poll.induct)
  case (1 up a talkId startedAt lastStatus w)
  show ?case
  proof (cases "now w - startedAt < timeoutMs")
    case False
    then show ?thesis
      using "1.prems"(1) by (auto simp: poll_deadline)
  next
    case True
    with "1.prems" obtain s w1 where
      f: "fetchTalkStatus up a talkId w = (Inr s, w1)"
      and n: "\<not> (talk_status s = ''done'' \<and> truthy (result_url s))" "talk_status s \<noteq> ''error''"
      and p: "P (talk_status s)"
      by blast
    have r: "polling up a talkId startedAt w0 (talk_status s) (sleep intervalMs w1)"
      using "1.prems"(1) True f n by (rule polling.again)
    have "\<exists>ls w'. poll up a talkId startedAt (talk_status s) (sleep intervalMs w1)
             = (Inr (Left None ls), w')
          \<and> polling up a talkId startedAt w0 ls w' \<and> timeoutMs \<le> now w' - startedAt
          \<and> (P ls \<or> (ls = talk_status s \<and> w' = sleep intervalMs w1))"
      using "1.IH" [OF True f [symmetric] refl _ n(2) r "1.prems"(2)] n(1) by blast
    then show ?thesis
      using p poll_again [OF True f n] by auto
  qed
qed

lemma synthesize_createTalk_throws:
  assumes "fst (createTalk up a t sourceUrl voiceId
                  (console_write (''Creating D-ID talk with text: '' @ take 50 t @ ''...'') w)) = Inl e"
  shows "synthesize up a t sourceUrl voiceId w
     = (did_catch e,
        snd (createTalk up a t sourceUrl voiceId
               (console_write (''Creating D-ID talk with text: '' @ take 50 t @ ''...'') w)))"
proof -
  obtain r w' where "createTalk up a t sourceUrl voiceId
      (console_write (''Creating D-ID talk with text: '' @ take 50 t @ ''...'') w) = (r, w')"
    by (cases "createTalk up a t sourceUrl voiceId
      (console_write (''Creating D-ID talk with text: '' @ take 50 t @ ''...'') w)")
  with assms show ?thesis
    by (simp add: synthesize_def)
qed

text \<open>
  C3, as stated, fails in the status: when all four submissions are refused the route
  answers 500, through its \<open>catch\<close> block, not 502.
\<close>

theorem all_tiers_fail_is_not_502:
  "http_status (fst (POST_did studio_env refusing_upstream
          (Inr (Some \<lparr>did_text = Some ''Hello'', source_url = None, voice_id = None\<rparr>))
          \<lparr>now = 0, sent = [], console = []\<rparr>)) = 500
   \<and> map url (sent (snd (POST_did studio_env refusing_upstream
          (Inr (Some \<lparr>did_text = Some ''Hello'', source_url = None, voice_id = None\<rparr>))
          \<lparr>now = 0, sent = [], console = []\<rparr>)))
     = [''https://api.d-id.com/v1/talks'', ''https://api.d-id.com/v1/talks'',
        ''https://api.d-id.com/talks'', ''https://api.d-id.com/talks'']"
proof -
  have t: "trim ''Hello'' = ''Hello''"
    by code_simp
  show ?thesis
    by (simp add: POST_did_def Let_def did_auth_def or_else_def studio_env_def t synthesize_def
        createTalk_def fetch_def refusing_upstream_def ok_def console_write_def did_catch_def
        NextResponse_json_def makeReqV1_def makeReqLegacy_def)
qed

text \<open>
  C3, amended. With the credentials configured and a text that is not blank: when each of
  the four submissions is answered with a status that is not a success, \<open>POST\<close> answers
  500 with the error \<open>Request failed\<close> and the detail
  \<open>Error: D-ID create error:\<close> followed by the body of the fourth answer. The four
  submissions were sent in order; the bodies of the first three answers are written to the
  console and appear nowhere in the response.
\<close>

theorem all_tiers_fail_request_failed:
  assumes "truthy (DID_API_KEY env) \<or> truthy (NEXT_PUBLIC_DID_API_KEY env)
           \<or> truthy (DID_BASIC_AUTH env)"
    and "did_text b = Some t" and "trim t \<noteq> []"
    and "ts = tiers (did_auth env) (trim t) (did_sourceUrl (Some b)) (did_voiceId (Some b))"
    and "\<forall>i<4. \<exists>ms. up (sent w @ take i ts) (ts ! i) = Responds ms (res i) \<and> \<not> ok (res i)"
  shows "fst (POST_did env up (Inr (Some b)) w)
          = NextResponse_json
              (DidFailure ''Request failed''
                 (Some (''Error: D-ID create error: '' @ text_body (res 3))) None None) 500
       \<and> sent (snd (POST_did env up (Inr (Some b)) w)) = sent w @ ts
       \<and> console (snd (POST_did env up (Inr (Some b)) w))
          = console w @
            [''DID auth present: true'',
             ''Creating D-ID talk with text: '' @ take 50 (trim t) @ ''...'',
             ''D-ID v1 primary payload failed: '' @ text_body (res 0),
             ''D-ID v1 secondary payload failed: '' @ text_body (res 1),
             ''D-ID legacy primary failed: '' @ text_body (res 2)]"
proof -
  let ?a = "did_auth env" and ?s = "did_sourceUrl (Some b)" and ?v = "did_voiceId (Some b)"
  let ?w = "console_write (''Creating D-ID talk with text: '' @ take 50 (trim t) @ ''...'')
              (console_write ''DID auth present: true'' w)"
  have lt: "0 < (4::nat)" "Suc 0 < 4" "Suc (Suc 0) < 4" "Suc (Suc (Suc 0)) < 4"
    by simp_all
  from assms(5) lt(1) obtain ms0 where
    r0: "up (sent w @ take 0 ts) (ts ! 0) = Responds ms0 (res 0)" "\<not> ok (res 0)"
    by blast
  from assms(5) lt(2) obtain ms1 where
    r1: "up (sent w @ take (Suc 0) ts) (ts ! Suc 0) = Responds ms1 (res (Suc 0))"
      "\<not> ok (res (Suc 0))"
    by blast
  from assms(5) lt(3) obtain ms2 where
    r2: "up (sent w @ take (Suc (Suc 0)) ts) (ts ! Suc (Suc 0)) = Responds ms2 (res (Suc (Suc 0)))"
      "\<not> ok (res (Suc (Suc 0)))"
    by blast
  from assms(5) lt(4) obtain ms3 where
    r3: "up (sent w @ take (Suc (Suc (Suc 0))) ts) (ts ! Suc (Suc (Suc 0)))
           = Responds ms3 (res (Suc (Suc (Suc 0))))"
      "\<not> ok (res (Suc (Suc (Suc 0))))"
    by blast
  have n: "res 1 = res (Suc 0)" "res 2 = res (Suc (Suc 0))" "res 3 = res (Suc (Suc (Suc 0)))"
    by (simp_all add: numeral_2_eq_2 numeral_3_eq_3)
  note c = createTalk_fourth [of up ?w ?a "trim t" ?s ms0 "res 0" ?v ms1 "res (Suc 0)" ms2
      "res (Suc (Suc 0))" ms3 "res (Suc (Suc (Suc 0)))"]
  have p: "up (sent ?w) (makeReqV1 (buildAuthHeaders ?a) (primaryBody (trim t) ?s))
            = Responds ms0 (res 0)"
    using r0 assms(4) by (simp add: tiers_nth tiers_take)
  have q: "up (sent ?w @ [makeReqV1 (buildAuthHeaders ?a) (primaryBody (trim t) ?s)])
             (makeReqV1 (buildAuthHeaders ?a) (secondaryBody (trim t) ?s ?v))
            = Responds ms1 (res (Suc 0))"
    using r1 assms(4) by (simp add: tiers_nth tiers_take)
  have r: "up (sent ?w @ [makeReqV1 (buildAuthHeaders ?a) (primaryBody (trim t) ?s),
                          makeReqV1 (buildAuthHeaders ?a) (secondaryBody (trim t) ?s ?v)])
             (makeReqLegacy (buildAuthHeaders ?a) (primaryBody (trim t) ?s))
            = Responds ms2 (res (Suc (Suc 0)))"
    using r2 assms(4) by (simp add: tiers_nth tiers_take)
  have s: "up (sent ?w @ [makeReqV1 (buildAuthHeaders ?a) (primaryBody (trim t) ?s),
                          makeReqV1 (buildAuthHeaders ?a) (secondaryBody (trim t) ?s ?v),
                          makeReqLegacy (buildAuthHeaders ?a) (primaryBody (trim t) ?s)])
             (makeReqLegacy (buildAuthHeaders ?a) (secondaryBody (trim t) ?s ?v))
            = Responds ms3 (res (Suc (Suc (Suc 0))))"
    using r3 assms(4) by (simp add: tiers_nth tiers_take)
  note d = c [OF p r0(2) q r1(2) r r2(2) s]
  have "POST_did env up (Inr (Some b)) w
      = (did_catch (Error (''D-ID create error: '' @ text_body (res 3))),
         snd (createTalk up ?a (trim t) ?s ?v ?w))"
    using d(1) r3(2) n
    by (simp add: POST_did_synthesize [OF assms(1,2,3)] synthesize_createTalk_throws)
  then show ?thesis
    using d(2,3) n assms(4)
    by (simp add: did_catch_def tiers_def console_write_def named_def)
qed


theorem all_tiers_fail_request_failed_witness:
  "fst (POST_did studio_env refusing_upstream
          (Inr (Some \<lparr>did_text = Some ''Hello'', source_url = None, voice_id = None\<rparr>))
          \<lparr>now = 0, sent = [], console = []\<rparr>)
     = NextResponse_json
         (DidFailure ''Request failed'' (Some ''Error: D-ID create error: forbidden'') None None) 500
   \<and> sent (snd (POST_did studio_env refusing_upstream
          (Inr (Some \<lparr>did_text = Some ''Hello'', source_url = None, voice_id = None\<rparr>))
          \<lparr>now = 0, sent = [], console = []\<rparr>))
     = tiers (did_auth studio_env) ''Hello'' DEFAULT_SOURCE_URL DEFAULT_VOICE_ID"
proof -
  have t: "trim ''Hello'' = ''Hello''"
    by code_simp
  show ?thesis
    using all_tiers_fail_request_failed [where env = studio_env
        and b = "\<lparr>did_text = Some ''Hello'', source_url = None, voice_id = None\<rparr>"
        and t = "''Hello''" and up = refusing_upstream
        and w = "\<lparr>now = 0, sent = [], console = []\<rparr>"
        and ts = "tiers (did_auth studio_env) ''Hello'' DEFAULT_SOURCE_URL DEFAULT_VOICE_ID"
        and res = "\<lambda>i. \<lparr>status = 403, text_body = ''forbidden'',
                          json_body = Inl (SyntaxError ''Unexpected token'')\<rparr>"]
    by (simp add: t studio_env_def did_sourceUrl_def did_voiceId_def or_default_def
        refusing_upstream_def ok_def)
qed

lemma fetchTalkStatus_first_ok:
  assumes "up (sent w) (statusReq ''https://api.d-id.com/v1/talks/'' a talkId) = Responds ms res"
    and "ok res"
  shows "fetchTalkStatus up a talkId w
     = (json_body res,
        w\<lparr>now := now w + int ms,
          sent := sent w @ [statusReq ''https://api.d-id.com/v1/talks/'' a talkId]\<rparr>)"
  using assms by (simp add: fetchTalkStatus_def fetch_def fetchTalkStatus_return_def)

lemma synthesize_poll:
  assumes "createTalk up a t sourceUrl voiceId
             (console_write (''Creating D-ID talk with text: '' @ take 50 t @ ''...'') w)
           = (Inr created, w1)"
    and "poll up a (talk_id created)
           (now (console_write (''D-ID talk created with ID: '' @ talk_id created) w1)) []
           (console_write (''D-ID talk created with ID: '' @ talk_id created) w1) = (Inr x, w2)"
  shows "synthesize up a t sourceUrl voiceId w
     = (case x of
          Returned r \<Rightarrow> (r, w2)
        | Left resultUrl lastStatus \<Rightarrow>
            if truthy resultUrl
            then (case resultUrl of None \<Rightarrow> (did_timeout (talk_id created) lastStatus, w2)
                  | Some u \<Rightarrow> (NextResponse_json (Video (talk_id created) u) 200, w2))
            else (did_timeout (talk_id created) lastStatus, w2))"
  using assms by (simp add: synthesize_def Let_def split: loop_exit.splits option.splits)

text \<open>
  C4. Take a run of \<open>POST\<close> with the credentials configured and a text that is not
  blank, in which \<open>createTalk\<close> returned the job \<open>created\<close> and the loop, started in
  the world \<open>w2\<close>, stands at its head in the world \<open>w3\<close> before the deadline. When
  the poll it makes there returns a status \<open>error\<close>, \<open>POST\<close> answers 502 with the
  error \<open>D-ID processing error\<close>, that response's \<open>error\<close> as detail and the job's
  id, and the world it leaves is the one in which the poll returned: no request and no delay
  comes after it.
\<close>

theorem error_status_stops_polling:
  assumes "truthy (DID_API_KEY env) \<or> truthy (NEXT_PUBLIC_DID_API_KEY env)
           \<or> truthy (DID_BASIC_AUTH env)"
    and "did_text b = Some t" and "trim t \<noteq> []"
    and "createTalk up (did_auth env) (trim t) (did_sourceUrl (Some b)) (did_voiceId (Some b))
           (console_write (''Creating D-ID talk with text: '' @ take 50 (trim t) @ ''...'')
              (console_write ''DID auth present: true'' w))
         = (Inr created, w1)"
    and "w2 = console_write (''D-ID talk created with ID: '' @ talk_id created) w1"
    and "polling up (did_auth env) (talk_id created) (now w2) w2 lastStatus w3"
    and "now w3 - now w2 < timeoutMs"
    and "fetchTalkStatus up (did_auth env) (talk_id created) w3 = (Inr s, w4)"
    and "talk_status s = ''error''"
  shows "POST_did env up (Inr (Some b)) w
     = (NextResponse_json
          (DidFailure ''D-ID processing error'' (error s) (Some (talk_id created)) None) 502,
        w4)"
proof -
  have "poll up (did_auth env) (talk_id created) (now w2) [] w2
      = poll up (did_auth env) (talk_id created) (now w2) lastStatus w3"
    using assms(6) by (rule poll_polling)
  also have "\<dots> = (Inr (Returned (NextResponse_json
               (DidFailure ''D-ID processing error'' (error s) (Some (talk_id created)) None) 502)),
             w4)"
    using assms(7,8,9) by (rule poll_error)
  finally show ?thesis
    using assms(4,5)
    by (simp add: POST_did_synthesize [OF assms(1,2,3)] synthesize_poll)
qed

theorem error_status_stops_polling_witness:
  "fst (POST_did studio_env failing_job_upstream
          (Inr (Some \<lparr>did_text = Some ''Hello'', source_url = None, voice_id = None\<rparr>))
          \<lparr>now = 0, sent = [], console = []\<rparr>)
     = NextResponse_json
         (DidFailure ''D-ID processing error'' (Some ''render failed'') (Some ''job1'') None) 502
   \<and> now (snd (POST_did studio_env failing_job_upstream
          (Inr (Some \<lparr>did_text = Some ''Hello'', source_url = None, voice_id = None\<rparr>))
          \<lparr>now = 0, sent = [], console = []\<rparr>)) = 1490
   \<and> map url (sent (snd (POST_did studio_env failing_job_upstream
          (Inr (Some \<lparr>did_text = Some ''Hello'', source_url = None, voice_id = None\<rparr>))
          \<lparr>now = 0, sent = [], console = []\<rparr>)))
     = [''https://api.d-id.com/v1/talks'', ''https://api.d-id.com/v1/talks/job1'',
        ''https://api.d-id.com/v1/talks/job1'']"
proof -
  let ?a = "did_auth studio_env"
  let ?b = "\<lparr>did_text = Some ''Hello'', source_url = None, voice_id = None\<rparr>"
  let ?job = "\<lparr>talk_id = ''job1'', talk_status = ''created'', result_url = None, error = None\<rparr>"
  let ?pending = "\<lparr>talk_id = ''job1'', talk_status = ''pending'', result_url = None, error = None\<rparr>"
  let ?failed = "\<lparr>talk_id = ''job1'', talk_status = ''error'', result_url = None,
                  error = Some ''render failed''\<rparr>"
  let ?q = "makeReqV1 (buildAuthHeaders ?a) (primaryBody ''Hello'' DEFAULT_SOURCE_URL)"
  let ?g = "statusReq ''https://api.d-id.com/v1/talks/'' ?a ''job1''"
  let ?c = "[''DID auth present: true'', ''Creating D-ID talk with text: Hello...'']"
  let ?w0 = "\<lparr>now = 0, sent = [], console = ?c\<rparr>"
  let ?w1 = "\<lparr>now = 90, sent = [?q], console = ?c\<rparr>"
  let ?w2 = "\<lparr>now = 90, sent = [?q], console = ?c @ [''D-ID talk created with ID: job1'']\<rparr>"
  let ?w3 = "\<lparr>now = 1390, sent = [?q, ?g], console = ?c @ [''D-ID talk created with ID: job1'']\<rparr>"
  let ?w4 = "\<lparr>now = 1490, sent = [?q, ?g, ?g], console = ?c @ [''D-ID talk created with ID: job1'']\<rparr>"
  have t: "trim ''Hello'' = ''Hello''"
    by code_simp
  have s: "did_sourceUrl (Some ?b) = DEFAULT_SOURCE_URL" "did_voiceId (Some ?b) = DEFAULT_VOICE_ID"
    by (simp_all add: did_sourceUrl_def did_voiceId_def or_default_def)
  have c: "createTalk failing_job_upstream ?a ''Hello'' DEFAULT_SOURCE_URL DEFAULT_VOICE_ID
             (console_write (''Creating D-ID talk with text: '' @ take 50 ''Hello'' @ ''...'')
                (console_write ''DID auth present: true'' \<lparr>now = 0, sent = [], console = []\<rparr>))
           = (Inr ?job, ?w1)"
    by (simp add: createTalk_def fetch_def failing_job_upstream_def makeReqV1_def ok_def
        createTalk_return_def console_write_def Let_def)
  have w2: "?w2 = console_write (''D-ID talk created with ID: '' @ talk_id ?job) ?w1"
    by (simp add: console_write_def)
  have f1: "fetchTalkStatus failing_job_upstream ?a ''job1'' ?w2
      = (Inr ?pending, \<lparr>now = 190, sent = [?q, ?g],
           console = ?c @ [''D-ID talk created with ID: job1'']\<rparr>)"
    by (simp add: fetchTalkStatus_def fetch_def failing_job_upstream_def statusReq_def ok_def
        fetchTalkStatus_return_def makeReqV1_def)
  have "polling failing_job_upstream ?a ''job1'' (now ?w2) ?w2 (talk_status ?pending)
          (sleep intervalMs \<lparr>now = 190, sent = [?q, ?g],
             console = ?c @ [''D-ID talk created with ID: job1'']\<rparr>)"
    by (rule polling.again [OF polling.start _ f1]) (simp_all add: timeoutMs_def)
  then have p: "polling failing_job_upstream ?a (talk_id ?job) (now ?w2) ?w2 ''pending'' ?w3"
    by (simp add: sleep_def intervalMs_def)
  have f2: "fetchTalkStatus failing_job_upstream ?a (talk_id ?job) ?w3 = (Inr ?failed, ?w4)"
    by (simp add: fetchTalkStatus_def fetch_def failing_job_upstream_def statusReq_def ok_def
        fetchTalkStatus_return_def makeReqV1_def)
  have c': "createTalk failing_job_upstream ?a (trim ''Hello'') (did_sourceUrl (Some ?b))
              (did_voiceId (Some ?b))
              (console_write
                 (''Creating D-ID talk with text: '' @ take 50 (trim ''Hello'') @ ''...'')
                 (console_write ''DID auth present: true'' \<lparr>now = 0, sent = [], console = []\<rparr>))
            = (Inr ?job, ?w1)"
    unfolding t s by (rule c)
  have "POST_did studio_env failing_job_upstream (Inr (Some ?b))
          \<lparr>now = 0, sent = [], console = []\<rparr>
      = (NextResponse_json
           (DidFailure ''D-ID processing error'' (error ?failed) (Some (talk_id ?job)) None) 502,
         ?w4)"
    by (rule error_status_stops_polling [where t = "''Hello''" and ?w1.0 = "?w1" and ?w2.0 = "?w2"
          and ?w3.0 = "?w3" and lastStatus = "''pending''" and s = "?failed", OF _ _ _ c' w2 p _ f2])
      (simp_all add: studio_env_def t timeoutMs_def)
  then show ?thesis
    by (simp add: statusReq_def makeReqV1_def)
qed


text \<open>
  C5. Take a run of \<open>POST\<close> with the credentials configured and a text that is not
  blank, in which \<open>createTalk\<close> returned the job \<open>created\<close> and the loop starts in the
  world \<open>w2\<close>. When every poll the loop makes before the deadline returns a status
  that neither is \<open>done\<close> with a result URL nor is \<open>error\<close>, and that has the property
  \<open>P\<close> (to be \<open>pending\<close>, say), \<open>POST\<close> returns: it answers 504 with the error
  \<open>Timeout waiting for video\<close>, the job's id and a status that has \<open>P\<close>, the value
  the loop held at its head when it stopped, 30 seconds or more after it started.
\<close>

theorem pending_polls_time_out:
  assumes "truthy (DID_API_KEY env) \<or> truthy (NEXT_PUBLIC_DID_API_KEY env)
           \<or> truthy (DID_BASIC_AUTH env)"
    and "did_text b = Some t" and "trim t \<noteq> []"
    and "createTalk up (did_auth env) (trim t) (did_sourceUrl (Some b)) (did_voiceId (Some b))
           (console_write (''Creating D-ID talk with text: '' @ take 50 (trim t) @ ''...'')
              (console_write ''DID auth present: true'' w))
         = (Inr created, w1)"
    and "w2 = console_write (''D-ID talk created with ID: '' @ talk_id created) w1"
    and "\<forall>ls w'. polling up (did_auth env) (talk_id created) (now w2) w2 ls w'
               \<and> now w' - now w2 < timeoutMs
          \<longrightarrow> (\<exists>s w''. fetchTalkStatus up (did_auth env) (talk_id created) w' = (Inr s, w'')
                 \<and> \<not> (talk_status s = ''done'' \<and> truthy (result_url s))
                 \<and> talk_status s \<noteq> ''error'' \<and> P (talk_status s))"
  shows "\<exists>ls w'. POST_did env up (Inr (Some b)) w
            = (NextResponse_json
                 (DidFailure ''Timeout waiting for video'' None (Some (talk_id created)) (Some ls))
                 504, w')
          \<and> P ls
          \<and> polling up (did_auth env) (talk_id created) (now w2) w2 ls w'
          \<and> timeoutMs \<le> now w' - now w2"
proof -
  have "polling up (did_auth env) (talk_id created) (now w2) w2 [] w2"
    by (rule polling.start)
  from poll_all_pending [OF this assms(6)] obtain ls w' where
    p: "poll up (did_auth env) (talk_id created) (now w2) [] w2 = (Inr (Left None ls), w')"
    and r: "polling up (did_auth env) (talk_id created) (now w2) w2 ls w'"
    and d: "timeoutMs \<le> now w' - now w2"
    and l: "P ls \<or> (ls = [] \<and> w' = w2)"
    by blast
  from d l have "P ls"
    by (auto simp: timeoutMs_def)
  moreover have "POST_did env up (Inr (Some b)) w = (did_timeout (talk_id created) ls, w')"
    using assms(4,5) p
    by (simp add: POST_did_synthesize [OF assms(1,2,3)] synthesize_poll)
  ultimately show ?thesis
    using r d by (auto simp: did_timeout_def)
qed


theorem pending_polls_time_out_witness:
  "fst (POST_did studio_env legacy_voice_upstream
          (Inr (Some \<lparr>did_text = Some ''Hello'', source_url = None, voice_id = None\<rparr>))
          \<lparr>now = 0, sent = [], console = []\<rparr>)
     = NextResponse_json
         (DidFailure ''Timeout waiting for video'' None (Some ''job4'') (Some ''pending'')) 504
   \<and> 30240 \<le> now (snd (POST_did studio_env legacy_voice_upstream
          (Inr (Some \<lparr>did_text = Some ''Hello'', source_url = None, voice_id = None\<rparr>))
          \<lparr>now = 0, sent = [], console = []\<rparr>))"
proof -
  let ?a = "did_auth studio_env"
  let ?b = "\<lparr>did_text = Some ''Hello'', source_url = None, voice_id = None\<rparr>"
  let ?job = "\<lparr>talk_id = ''job4'', talk_status = ''created'', result_url = None, error = None\<rparr>"
  let ?pending = "\<lparr>talk_id = ''job4'', talk_status = ''pending'', result_url = None, error = None\<rparr>"
  let ?w1 = "\<lparr>now = 240, sent = tiers ?a ''Hello'' DEFAULT_SOURCE_URL DEFAULT_VOICE_ID,
              console = [''DID auth present: true'', ''Creating D-ID talk with text: Hello...'',
                ''D-ID v1 primary payload failed: unsupported'',
                ''D-ID v1 secondary payload failed: unsupported'',
                ''D-ID legacy primary failed: unsupported'']\<rparr>"
  let ?w2 = "console_write (''D-ID talk created with ID: '' @ talk_id ?job) ?w1"
  have t: "trim ''Hello'' = ''Hello''"
    by code_simp
  have s: "did_sourceUrl (Some ?b) = DEFAULT_SOURCE_URL" "did_voiceId (Some ?b) = DEFAULT_VOICE_ID"
    by (simp_all add: did_sourceUrl_def did_voiceId_def or_default_def)
  have c: "createTalk legacy_voice_upstream ?a ''Hello'' DEFAULT_SOURCE_URL DEFAULT_VOICE_ID
             (console_write (''Creating D-ID talk with text: '' @ take 50 ''Hello'' @ ''...'')
                (console_write ''DID auth present: true'' \<lparr>now = 0, sent = [], console = []\<rparr>))
           = (Inr ?job, ?w1)"
    by (simp add: createTalk_def fetch_def legacy_voice_upstream_def makeReqV1_def
        makeReqLegacy_def primaryBody_def secondaryBody_def ok_def createTalk_return_def
        console_write_def Let_def tiers_def)
  have c': "createTalk legacy_voice_upstream ?a (trim ''Hello'') (did_sourceUrl (Some ?b))
              (did_voiceId (Some ?b))
              (console_write
                 (''Creating D-ID talk with text: '' @ take 50 (trim ''Hello'') @ ''...'')
                 (console_write ''DID auth present: true'' \<lparr>now = 0, sent = [], console = []\<rparr>))
            = (Inr ?job, ?w1)"
    unfolding t s by (rule c)
  have f: "fetchTalkStatus legacy_voice_upstream ?a (talk_id ?job) w'
      = (Inr ?pending,
         w'\<lparr>now := now w' + int 100,
            sent := sent w' @ [statusReq ''https://api.d-id.com/v1/talks/'' ?a (talk_id ?job)]\<rparr>)"
    for w'
    by (simp add: fetchTalkStatus_def fetch_def legacy_voice_upstream_def statusReq_def ok_def
        fetchTalkStatus_return_def)
  have h: "\<forall>ls w'. polling legacy_voice_upstream ?a (talk_id ?job) (now ?w2) ?w2 ls w'
               \<and> now w' - now ?w2 < timeoutMs
          \<longrightarrow> (\<exists>s w''. fetchTalkStatus legacy_voice_upstream ?a (talk_id ?job) w' = (Inr s, w'')
                 \<and> \<not> (talk_status s = ''done'' \<and> truthy (result_url s))
                 \<and> talk_status s \<noteq> ''error'' \<and> (\<lambda>x. x = ''pending'') (talk_status s))"
    using f by simp
  have "\<exists>ls w'. POST_did studio_env legacy_voice_upstream (Inr (Some ?b))
                   \<lparr>now = 0, sent = [], console = []\<rparr>
            = (NextResponse_json
                 (DidFailure ''Timeout waiting for video'' None (Some (talk_id ?job)) (Some ls))
                 504, w')
          \<and> ls = ''pending''
          \<and> polling legacy_voice_upstream ?a (talk_id ?job) (now ?w2) ?w2 ls w'
          \<and> timeoutMs \<le> now w' - now ?w2"
    by (rule pending_polls_time_out [where t = "''Hello''" and ?w1.0 = "?w1"
          and P = "\<lambda>x. x = ''pending''", OF _ _ _ c' refl h])
      (simp_all add: studio_env_def t)
  then show ?thesis
    by (auto simp: timeoutMs_def console_write_def)
qed

end
